theory Spec2Isabelle
  imports Main "HOL-Library.Word"
begin

section \<open>Data model (context/types.go)\<close>

text \<open>
  Go's \<open>int\<close> is a 64-bit two's complement integer on the supported platforms: addition
  wraps around, comparisons are signed.  A \<open>time.Time\<close> is modelled as a natural number,
  \<open>0\<close> being the zero time (\<open>IsZero\<close>).  Every function that reads the wall clock or
  draws a UUID takes the value read as an argument; the clock readings of one call are
  one reading.

  Left out of the records: the fields computed in floating point (\<open>LocationVisit.Duration\<close>,
  \<open>SessionMetrics.SessionTime\<close>), the metadata bags of the character and of items, and
  the stats of equipment.  No operation reads them.
\<close>

type_synonym go_int = "64 word"
type_synonym timestamp = nat

definition IsZero :: "timestamp \<Rightarrow> bool" where
  "IsZero t = (t = 0)"

record HealthStatus =
  Health_Current :: go_int
  Health_Max :: go_int

record EquipmentItem =
  Equip_ID :: string
  Equip_Name :: string
  Equip_Type :: string
  Equip_Slot :: string

record InventoryItem =
  Item_ID :: string
  Item_Name :: string
  Item_Type :: string
  Quantity :: go_int
  Item_Value :: go_int

record CharacterState =
  Char_Name :: string
  Health :: HealthStatus
  Equipment :: "EquipmentItem list"
  Inventory :: "InventoryItem list"
  Reputation :: go_int
  Attributes :: "string \<rightharpoonup> go_int"

record LocationVisit =
  Visit_Location :: string
  EntryTime :: timestamp
  ExitTime :: timestamp

record LocationState =
  Loc_Current :: string
  Previous :: string
  VisitCount :: go_int
  FirstVisit :: timestamp
  TimeInLocation :: go_int
  LocationHistory :: "LocationVisit list"

text \<open>A value of Go's \<open>interface{}\<close> as it occurs in a metadata bag: the dynamic types the
  consequence rules test for, and one constructor for every other type.\<close>

datatype mvalue =
    IntV go_int
  | StringV string
  | MapV "string \<Rightarrow> mvalue option"
  | OtherV

type_synonym metadata = "string \<rightharpoonup> mvalue"

record ActionEvent =
  Action_ID :: string
  Action_Timestamp :: timestamp
  Action_Type :: string
  Command :: string
  Target :: string
  Action_Location :: string
  Outcome :: string
  Consequences :: "string list"
  Action_Metadata :: metadata

record NPCRelationship =
  NPCID :: string
  NPC_Name :: string
  Disposition :: go_int
  FirstMet :: timestamp
  LastInteraction :: timestamp
  InteractionCount :: go_int
  KnownFacts :: "string list"
  Mood :: string
  NPC_Location :: string
  Notes :: "string list"

record SessionMetrics =
  TotalActions :: go_int
  CombatActions :: go_int
  SocialActions :: go_int
  ExploreActions :: go_int
  LocationsVisited :: go_int
  NPCsInteracted :: go_int

record PlayerContext =
  PlayerID :: string
  SessionID :: string
  StartTime :: timestamp
  LastUpdate :: timestamp
  Character :: CharacterState
  Location :: LocationState
  Actions :: "ActionEvent list"
  NPCStates :: "string \<rightharpoonup> NPCRelationship"
  SessionStats :: SessionMetrics

record ContextEvent =
  Event_SessionID :: string
  Event :: ActionEvent
  Event_Timestamp :: timestamp

datatype error =
    ContextNotFound string
  | StorageFailure
  | EventQueueFull
  | FailedToSaveNewContext error

datatype panic = TypeAssertionPanic

section \<open>Durable store (the ContextStorage interface)\<close>

text \<open>
  The interface is implemented by an in-memory map and by a relational store.  Both are
  keyed overwrite storage; the relational one can fail on I/O.  The model is a map of
  snapshots with a flag saying that the backend currently fails: LoadContext then returns
  an error, as it does for an unknown id, and SaveContext returns an error and stores
  nothing.

  The in-memory backend keeps a shallow copy, whose slices and maps are shared with the
  cached session; the model keeps a snapshot.  The manager reads a stored session only on
  a cache miss, and no operation removes a session from the cache, so the shared parts of
  a session saved from the cache are never read back.
\<close>

record ContextStorage =
  contexts :: "string \<rightharpoonup> PlayerContext"
  failing :: bool

definition NewMemoryStorage :: ContextStorage where
  "NewMemoryStorage = \<lparr>contexts = Map.empty, failing = False\<rparr>"

definition LoadContext :: "ContextStorage \<Rightarrow> string \<Rightarrow> error + PlayerContext" where
  "LoadContext s sessionID =
     (if failing s then Inl StorageFailure
      else case contexts s sessionID of
             None \<Rightarrow> Inl (ContextNotFound sessionID)
           | Some ctx \<Rightarrow> Inr ctx)"

definition SaveContext :: "ContextStorage \<Rightarrow> PlayerContext \<Rightarrow> ContextStorage \<times> error option" where
  "SaveContext s ctx =
     (if failing s then (s, Some StorageFailure)
      else (s\<lparr>contexts := (contexts s)(SessionID ctx \<mapsto> ctx)\<rparr>, None))"

section \<open>Context manager\<close>

text \<open>
  The cache (a \<open>sync.Map\<close> from session id to \<open>*PlayerContext\<close>) is a map from session
  id to the session the pointer refers to.  The event queue is a buffered channel: the
  list of the events it holds and its capacity.  The capacity and \<open>maxActions\<close> are set
  once, by NewContextManager, and are naturals here.  The operations are modelled one call
  at a time; the interleaving of concurrent calls is not.
\<close>

record ContextManager =
  storage :: ContextStorage
  cache :: "string \<rightharpoonup> PlayerContext"
  eventQueue :: "ContextEvent list"
  queueCapacity :: nat
  maxActions :: nat

definition NewContextManager :: "ContextStorage \<Rightarrow> ContextManager" where
  "NewContextManager st =
     \<lparr>storage = st, cache = Map.empty, eventQueue = [], queueCapacity = 1000, maxActions = 50\<rparr>"

definition createNewContext :: "string \<Rightarrow> timestamp \<Rightarrow> PlayerContext" where
  "createNewContext sessionID now =
     \<lparr>PlayerID = '''',
      SessionID = sessionID,
      StartTime = now,
      LastUpdate = now,
      Character = \<lparr>Char_Name = '''',
                   Health = \<lparr>Health_Current = 20, Health_Max = 20\<rparr>,
                   Equipment = [],
                   Inventory = [],
                   Reputation = 0,
                   Attributes = Map.empty\<rparr>,
      Location = \<lparr>Loc_Current = ''unknown'',
                  Previous = '''',
                  VisitCount = 0,
                  FirstVisit = 0,
                  TimeInLocation = 0,
                  LocationHistory = []\<rparr>,
      Actions = [],
      NPCStates = Map.empty,
      SessionStats = \<lparr>TotalActions = 0, CombatActions = 0, SocialActions = 0,
                      ExploreActions = 0, LocationsVisited = 0, NPCsInteracted = 0\<rparr>\<rparr>"

definition GetContext ::
  "ContextManager \<Rightarrow> string \<Rightarrow> timestamp \<Rightarrow> ContextManager \<times> PlayerContext \<times> error option" where
  "GetContext cm sessionID now =
     (case cache cm sessionID of
        Some cached \<Rightarrow> (cm, cached, None)
      | None \<Rightarrow>
          (let ctx = (case LoadContext (storage cm) sessionID of
                        Inr loaded \<Rightarrow> loaded
                      | Inl err \<Rightarrow> createNewContext sessionID now)
           in (cm\<lparr>cache := (cache cm)(sessionID \<mapsto> ctx)\<rparr>, ctx, None)))"

text \<open>The session literal that CreateSession builds.\<close>

definition newSession :: "string \<Rightarrow> string \<Rightarrow> string \<Rightarrow> timestamp \<Rightarrow> PlayerContext" where
  "newSession playerID playerName sessionID now =
     \<lparr>PlayerID = playerID,
      SessionID = sessionID,
      StartTime = now,
      LastUpdate = now,
      Character = \<lparr>Char_Name = playerName,
                   Health = \<lparr>Health_Current = 20, Health_Max = 20\<rparr>,
                   Equipment = [],
                   Inventory = [],
                   Reputation = 0,
                   Attributes = [''strength'' \<mapsto> 10, ''dexterity'' \<mapsto> 10,
                                 ''intelligence'' \<mapsto> 10, ''charisma'' \<mapsto> 10]\<rparr>,
      Location = \<lparr>Loc_Current = ''starting_village'',
                  Previous = '''',
                  VisitCount = 1,
                  FirstVisit = now,
                  TimeInLocation = 0,
                  LocationHistory = []\<rparr>,
      Actions = [],
      NPCStates = Map.empty,
      SessionStats = \<lparr>TotalActions = 0, CombatActions = 0, SocialActions = 0,
                      ExploreActions = 0, LocationsVisited = 1, NPCsInteracted = 0\<rparr>\<rparr>"

text \<open>\<open>sessionID\<close> is the UUID drawn by the call.  The session is put in the cache before
  it is saved.\<close>

definition CreateSession ::
  "ContextManager \<Rightarrow> string \<Rightarrow> string \<Rightarrow> string \<Rightarrow> timestamp
     \<Rightarrow> ContextManager \<times> string \<times> error option" where
  "CreateSession cm playerID playerName sessionID now =
     (let ctx = newSession playerID playerName sessionID now;
          cm1 = cm\<lparr>cache := (cache cm)(sessionID \<mapsto> ctx)\<rparr>
      in case SaveContext (storage cm1) ctx of
           (st, Some err) \<Rightarrow> (cm1\<lparr>storage := st\<rparr>, '''', Some (FailedToSaveNewContext err))
         | (st, None) \<Rightarrow> (cm1\<lparr>storage := st\<rparr>, sessionID, None))"

text \<open>The action literal that RecordAction builds; \<open>uuid\<close> is the UUID drawn by the call.
  The metadata bag starts empty.\<close>

definition newAction ::
  "string \<Rightarrow> string \<Rightarrow> string \<Rightarrow> string \<Rightarrow> string \<Rightarrow> string list \<Rightarrow> string \<Rightarrow> timestamp
     \<Rightarrow> ActionEvent" where
  "newAction command actionType target location outcome consequences uuid now =
     \<lparr>Action_ID = uuid,
      Action_Timestamp = now,
      Action_Type = actionType,
      Command = command,
      Target = target,
      Action_Location = location,
      Outcome = outcome,
      Consequences = consequences,
      Action_Metadata = Map.empty\<rparr>"

text \<open>The \<open>select\<close> with a \<open>default\<close> branch: the send succeeds when the channel's buffer has
  room, otherwise the call returns the error at once.\<close>

definition RecordAction ::
  "ContextManager \<Rightarrow> string \<Rightarrow> string \<Rightarrow> string \<Rightarrow> string \<Rightarrow> string \<Rightarrow> string \<Rightarrow> string list
     \<Rightarrow> string \<Rightarrow> timestamp \<Rightarrow> ContextManager \<times> error option" where
  "RecordAction cm sessionID command actionType target location outcome consequences uuid now =
     (let action = newAction command actionType target location outcome consequences uuid now
      in if length (eventQueue cm) < queueCapacity cm
         then (cm\<lparr>eventQueue := eventQueue cm @
                      [\<lparr>Event_SessionID = sessionID, Event = action, Event_Timestamp = now\<rparr>]\<rparr>,
               None)
         else (cm, Some EventQueueFull))"

text \<open>The read-modify-write of UpdateLocation on the session it obtained.\<close>

definition locationEffect :: "string \<Rightarrow> timestamp \<Rightarrow> PlayerContext \<Rightarrow> PlayerContext" where
  "locationEffect newLocation now ctx =
     (let ctx1 =
            (if Loc_Current (Location ctx) \<noteq> newLocation then
               (let hist = LocationHistory (Location ctx);
                    hist1 = (if length hist > 0 \<and> IsZero (ExitTime (last hist))
                             then butlast hist @ [(last hist)\<lparr>ExitTime := now\<rparr>]
                             else hist);
                    loc = (Location ctx)
                            \<lparr>Previous := Loc_Current (Location ctx),
                             Loc_Current := newLocation,
                             TimeInLocation := 0,
                             LocationHistory := hist1 @
                               [\<lparr>Visit_Location = newLocation, EntryTime = now, ExitTime = 0\<rparr>]\<rparr>;
                    loc1 = (if IsZero (FirstVisit loc) then loc\<lparr>FirstVisit := now\<rparr> else loc)
                in ctx\<lparr>Location := loc1,
                        SessionStats := (SessionStats ctx)
                          \<lparr>LocationsVisited := LocationsVisited (SessionStats ctx) + 1\<rparr>\<rparr>)
             else ctx)
      in ctx1\<lparr>LastUpdate := now\<rparr>)"

definition UpdateLocation ::
  "ContextManager \<Rightarrow> string \<Rightarrow> string \<Rightarrow> timestamp \<Rightarrow> ContextManager \<times> error option" where
  "UpdateLocation cm sessionID newLocation now =
     (case GetContext cm sessionID now of
        (cm1, ctx, Some err) \<Rightarrow> (cm1, Some err)
      | (cm1, ctx, None) \<Rightarrow>
          (cm1\<lparr>cache := (cache cm1)(sessionID \<mapsto> locationEffect newLocation now ctx)\<rparr>, None))"

fun contains :: "string list \<Rightarrow> string \<Rightarrow> bool" where
  "contains [] item = False"
| "contains (s # rest) item = (if s = item then True else contains rest item)"

definition calculateMood :: "go_int \<Rightarrow> string" where
  "calculateMood disposition =
     (if 50 \<le>s disposition then ''friendly''
      else if 25 \<le>s disposition then ''helpful''
      else if 0 \<le>s disposition then ''neutral''
      else if -25 \<le>s disposition then ''suspicious''
      else if -50 \<le>s disposition then ''unfriendly''
      else ''hostile'')"

text \<open>The loop \<open>for _, fact := range facts\<close> of UpdateNPCRelationship.\<close>

fun addNewFacts :: "string list \<Rightarrow> string list \<Rightarrow> string list" where
  "addNewFacts known [] = known"
| "addNewFacts known (f # fs) =
     addNewFacts (if \<not> contains known f then known @ [f] else known) fs"

text \<open>The read-modify-write of UpdateNPCRelationship on the session it obtained.\<close>

definition npcEffect ::
  "string \<Rightarrow> string \<Rightarrow> go_int \<Rightarrow> string list \<Rightarrow> timestamp \<Rightarrow> PlayerContext \<Rightarrow> PlayerContext" where
  "npcEffect npcID npcName dispositionChange facts now ctx =
     (let (npcRel, ctx1) =
            (case NPCStates ctx npcID of
               Some existing \<Rightarrow> (existing, ctx)
             | None \<Rightarrow>
                 (\<lparr>NPCID = npcID, NPC_Name = npcName, Disposition = 0, FirstMet = now,
                   LastInteraction = 0, InteractionCount = 0, KnownFacts = [],
                   Mood = ''neutral'', NPC_Location = Loc_Current (Location ctx),
                   Notes = []\<rparr>,
                  ctx\<lparr>SessionStats := (SessionStats ctx)
                         \<lparr>NPCsInteracted := NPCsInteracted (SessionStats ctx) + 1\<rparr>\<rparr>));
          d = Disposition npcRel + dispositionChange;
          d1 = (if 100 <s d then 100 else if d <s - 100 then - 100 else d);
          npcRel1 = npcRel\<lparr>Disposition := d1,
                           LastInteraction := now,
                           InteractionCount := InteractionCount npcRel + 1,
                           NPC_Location := Loc_Current (Location ctx1),
                           KnownFacts := addNewFacts (KnownFacts npcRel) facts,
                           Mood := calculateMood d1\<rparr>
      in ctx1\<lparr>NPCStates := (NPCStates ctx1)(npcID \<mapsto> npcRel1), LastUpdate := now\<rparr>)"

definition UpdateNPCRelationship ::
  "ContextManager \<Rightarrow> string \<Rightarrow> string \<Rightarrow> string \<Rightarrow> go_int \<Rightarrow> string list \<Rightarrow> timestamp
     \<Rightarrow> ContextManager \<times> error option" where
  "UpdateNPCRelationship cm sessionID npcID npcName dispositionChange facts now =
     (case GetContext cm sessionID now of
        (cm1, ctx, Some err) \<Rightarrow> (cm1, Some err)
      | (cm1, ctx, None) \<Rightarrow>
          (cm1\<lparr>cache := (cache cm1)
                   (sessionID \<mapsto> npcEffect npcID npcName dispositionChange facts now ctx)\<rparr>,
           None))"

text \<open>The read-modify-write of UpdateCharacterHealth on the session it obtained.\<close>

definition healthEffect :: "go_int \<Rightarrow> timestamp \<Rightarrow> PlayerContext \<Rightarrow> PlayerContext" where
  "healthEffect healthChange now ctx =
     (let h = Health (Character ctx);
          c = Health_Current h + healthChange;
          c1 = (if Health_Max h <s c then Health_Max h else if c <s 0 then 0 else c)
      in ctx\<lparr>Character := (Character ctx)\<lparr>Health := h\<lparr>Health_Current := c1\<rparr>\<rparr>,
              LastUpdate := now\<rparr>)"

definition UpdateCharacterHealth ::
  "ContextManager \<Rightarrow> string \<Rightarrow> go_int \<Rightarrow> timestamp \<Rightarrow> ContextManager \<times> error option" where
  "UpdateCharacterHealth cm sessionID healthChange now =
     (case GetContext cm sessionID now of
        (cm1, ctx, Some err) \<Rightarrow> (cm1, Some err)
      | (cm1, ctx, None) \<Rightarrow>
          (cm1\<lparr>cache := (cache cm1)(sessionID \<mapsto> healthEffect healthChange now ctx)\<rparr>, None))"

text \<open>The read-modify-write of UpdateReputation on the session it obtained.\<close>

definition reputationEffect :: "go_int \<Rightarrow> timestamp \<Rightarrow> PlayerContext \<Rightarrow> PlayerContext" where
  "reputationEffect reputationChange now ctx =
     (let r = Reputation (Character ctx) + reputationChange;
          r1 = (if 100 <s r then 100 else if r <s - 100 then - 100 else r)
      in ctx\<lparr>Character := (Character ctx)\<lparr>Reputation := r1\<rparr>, LastUpdate := now\<rparr>)"

definition UpdateReputation ::
  "ContextManager \<Rightarrow> string \<Rightarrow> go_int \<Rightarrow> timestamp \<Rightarrow> ContextManager \<times> error option" where
  "UpdateReputation cm sessionID reputationChange now =
     (case GetContext cm sessionID now of
        (cm1, ctx, Some err) \<Rightarrow> (cm1, Some err)
      | (cm1, ctx, None) \<Rightarrow>
          (cm1\<lparr>cache := (cache cm1)(sessionID \<mapsto> reputationEffect reputationChange now ctx)\<rparr>,
           None))"

text \<open>\<open>count\<close> is an \<open>int\<close> in the source; its callers pass the literals 3 and 10 (a
  negative count would make the slice expression panic).\<close>

definition GetRecentActions ::
  "ContextManager \<Rightarrow> string \<Rightarrow> nat \<Rightarrow> timestamp
     \<Rightarrow> ContextManager \<times> ActionEvent list \<times> error option" where
  "GetRecentActions cm sessionID count now =
     (case GetContext cm sessionID now of
        (cm1, ctx, Some err) \<Rightarrow> (cm1, [], Some err)
      | (cm1, ctx, None) \<Rightarrow>
          (let actions = Actions ctx;
               actions1 = (if length actions > count
                           then drop (length actions - count) actions else actions)
           in (cm1, actions1, None)))"

section \<open>Event pipeline and consequence rules (events.go)\<close>

text \<open>
  The cache holds pointers.  The \<open>*PlayerContext\<close> that processContextEvent obtains from
  GetContext and hands to processActionConsequences is the object the cache holds under
  the event's session id, so a write through the pointer is a write to that cache entry.
  \<open>modifyCached\<close> is such a write; the pointer is represented by its cache key.  Cache
  entries are never removed by the operations modelled here.
\<close>

definition modifyCached ::
  "ContextManager \<Rightarrow> string \<Rightarrow> (PlayerContext \<Rightarrow> PlayerContext) \<Rightarrow> ContextManager" where
  "modifyCached cm key f =
     (case cache cm key of
        None \<Rightarrow> cm
      | Some ctx \<Rightarrow> cm\<lparr>cache := (cache cm)(key \<mapsto> f ctx)\<rparr>)"

definition addReputation :: "go_int \<Rightarrow> PlayerContext \<Rightarrow> PlayerContext" where
  "addReputation change ctx =
     ctx\<lparr>Character := (Character ctx)\<lparr>Reputation := Reputation (Character ctx) + change\<rparr>\<rparr>"

definition damageHealth :: "go_int \<Rightarrow> PlayerContext \<Rightarrow> PlayerContext" where
  "damageHealth damage ctx =
     (let h = Health (Character ctx);
          c = Health_Current h - damage;
          c1 = (if c <s 0 then 0 else c)
      in ctx\<lparr>Character := (Character ctx)\<lparr>Health := h\<lparr>Health_Current := c1\<rparr>\<rparr>\<rparr>)"

definition healHealth :: "go_int \<Rightarrow> PlayerContext \<Rightarrow> PlayerContext" where
  "healHealth healing ctx =
     (let h = Health (Character ctx);
          c = Health_Current h + healing;
          c1 = (if Health_Max h <s c then Health_Max h else c)
      in ctx\<lparr>Character := (Character ctx)\<lparr>Health := h\<lparr>Health_Current := c1\<rparr>\<rparr>\<rparr>)"

definition gainItem :: "InventoryItem \<Rightarrow> PlayerContext \<Rightarrow> PlayerContext" where
  "gainItem item ctx =
     ctx\<lparr>Character := (Character ctx)\<lparr>Inventory := Inventory (Character ctx) @ [item]\<rparr>\<rparr>"

fun removeItem :: "InventoryItem list \<Rightarrow> string \<Rightarrow> InventoryItem list" where
  "removeItem [] itemID = []"
| "removeItem (item # items) itemID =
     (if Item_ID item = itemID then items else item # removeItem items itemID)"

definition removeItemFromInventory :: "string \<Rightarrow> PlayerContext \<Rightarrow> PlayerContext" where
  "removeItemFromInventory itemID ctx =
     ctx\<lparr>Character := (Character ctx)
            \<lparr>Inventory := removeItem (Inventory (Character ctx)) itemID\<rparr>\<rparr>"

text \<open>One iteration of the loop over \<open>action.Consequences\<close>: the \<open>switch\<close> on the tag.
  The unchecked type assertions of the item_gained case panic on a missing or non-string
  entry.\<close>

definition applyConsequence ::
  "ContextManager \<Rightarrow> string \<Rightarrow> ActionEvent \<Rightarrow> timestamp \<Rightarrow> string \<Rightarrow> panic + ContextManager" where
  "applyConsequence cm key action now consequence =
     (let md = Action_Metadata action in
      if consequence = ''reputation_increase'' then
        (let change = (case md ''reputation_change'' of Some (IntV val) \<Rightarrow> val | _ \<Rightarrow> 5)
         in Inr (modifyCached cm key (addReputation change)))
      else if consequence = ''reputation_decrease'' then
        (let change = (case md ''reputation_change'' of Some (IntV val) \<Rightarrow> val | _ \<Rightarrow> - 10)
         in Inr (modifyCached cm key (addReputation change)))
      else if consequence = ''health_damage'' then
        (case md ''damage'' of
           Some (IntV damage) \<Rightarrow> Inr (modifyCached cm key (damageHealth damage))
         | _ \<Rightarrow> Inr cm)
      else if consequence = ''health_heal'' then
        (case md ''healing'' of
           Some (IntV healing) \<Rightarrow> Inr (modifyCached cm key (healHealth healing))
         | _ \<Rightarrow> Inr cm)
      else if consequence = ''npc_noticed'' then
        (case md ''npc_id'' of
           Some (StringV npcID) \<Rightarrow>
             (case md ''npc_name'' of
                Some (StringV npcName) \<Rightarrow>
                  (case cache cm key of
                     Some ctx \<Rightarrow>
                       Inr (fst (UpdateNPCRelationship cm (SessionID ctx) npcID npcName 0
                                   [''noticed_player_'' @ Action_Type action] now))
                   | None \<Rightarrow> Inr cm)
              | _ \<Rightarrow> Inr cm)
         | _ \<Rightarrow> Inr cm)
      else if consequence = ''combat_victory'' then
        Inr (modifyCached cm key (addReputation 2))
      else if consequence = ''combat_defeat'' then
        Inr (modifyCached cm key (addReputation (- 1)))
      else if consequence = ''quest_completed'' then
        (case md ''reputation_reward'' of
           Some (IntV reward) \<Rightarrow> Inr (modifyCached cm key (addReputation reward))
         | _ \<Rightarrow> Inr cm)
      else if consequence = ''item_gained'' then
        (case md ''item'' of
           Some (MapV itemData) \<Rightarrow>
             (case (itemData ''id'', itemData ''name'', itemData ''type'') of
                (Some (StringV iid), Some (StringV iname), Some (StringV itype)) \<Rightarrow>
                  (let item = \<lparr>Item_ID = iid, Item_Name = iname, Item_Type = itype,
                               Quantity = (case itemData ''quantity'' of
                                             Some (IntV quantity) \<Rightarrow> quantity | _ \<Rightarrow> 1),
                               Item_Value = (case itemData ''value'' of
                                               Some (IntV val) \<Rightarrow> val | _ \<Rightarrow> 0)\<rparr>
                   in Inr (modifyCached cm key (gainItem item)))
              | _ \<Rightarrow> Inl TypeAssertionPanic)
         | _ \<Rightarrow> Inr cm)
      else if consequence = ''item_lost'' then
        (case md ''item_id'' of
           Some (StringV itemID) \<Rightarrow> Inr (modifyCached cm key (removeItemFromInventory itemID))
         | _ \<Rightarrow> Inr cm)
      else Inr cm)"

fun consequenceLoop ::
  "ContextManager \<Rightarrow> string \<Rightarrow> ActionEvent \<Rightarrow> timestamp \<Rightarrow> string list \<Rightarrow> panic + ContextManager" where
  "consequenceLoop cm key action now [] = Inr cm"
| "consequenceLoop cm key action now (c # cs) =
     (case applyConsequence cm key action now c of
        Inl p \<Rightarrow> Inl p
      | Inr cm1 \<Rightarrow> consequenceLoop cm1 key action now cs)"

definition clampReputation :: "PlayerContext \<Rightarrow> PlayerContext" where
  "clampReputation ctx =
     (let r = Reputation (Character ctx)
      in if 100 <s r then ctx\<lparr>Character := (Character ctx)\<lparr>Reputation := 100\<rparr>\<rparr>
         else if r <s - 100 then ctx\<lparr>Character := (Character ctx)\<lparr>Reputation := - 100\<rparr>\<rparr>
         else ctx)"

definition processActionConsequences ::
  "ContextManager \<Rightarrow> string \<Rightarrow> ActionEvent \<Rightarrow> timestamp \<Rightarrow> panic + ContextManager" where
  "processActionConsequences cm key action now =
     (case consequenceLoop cm key action now (Consequences action) of
        Inl p \<Rightarrow> Inl p
      | Inr cm1 \<Rightarrow> Inr (modifyCached cm1 key clampReputation))"

definition updateSessionStats :: "ActionEvent \<Rightarrow> PlayerContext \<Rightarrow> PlayerContext" where
  "updateSessionStats action ctx =
     (let st = (SessionStats ctx)\<lparr>TotalActions := TotalActions (SessionStats ctx) + 1\<rparr>;
          t = Action_Type action;
          st1 = (if t = ''combat'' \<or> t = ''attack'' \<or> t = ''defend''
                 then st\<lparr>CombatActions := CombatActions st + 1\<rparr>
                 else if t = ''talk'' \<or> t = ''dialogue'' \<or> t = ''social''
                 then st\<lparr>SocialActions := SocialActions st + 1\<rparr>
                 else if t = ''move'' \<or> t = ''explore'' \<or> t = ''examine'' \<or> t = ''look''
                 then st\<lparr>ExploreActions := ExploreActions st + 1\<rparr>
                 else st)
      in ctx\<lparr>SessionStats := st1\<rparr>)"

text \<open>Append to the log and trim it to the last \<open>maxActions\<close> entries.\<close>

definition appendAction :: "nat \<Rightarrow> ActionEvent \<Rightarrow> PlayerContext \<Rightarrow> PlayerContext" where
  "appendAction bound action ctx =
     (let as = Actions ctx @ [action];
          as1 = (if length as > bound then drop (length as - bound) as else as)
      in ctx\<lparr>Actions := as1\<rparr>)"

definition stampEvent :: "ActionEvent \<Rightarrow> timestamp \<Rightarrow> PlayerContext \<Rightarrow> PlayerContext" where
  "stampEvent action now ctx = (updateSessionStats action ctx)\<lparr>LastUpdate := now\<rparr>"

definition processContextEvent ::
  "ContextManager \<Rightarrow> ContextEvent \<Rightarrow> timestamp \<Rightarrow> panic + ContextManager" where
  "processContextEvent cm event now =
     (case GetContext cm (Event_SessionID event) now of
        (cm1, ctx, Some err) \<Rightarrow> Inr cm1
      | (cm1, ctx, None) \<Rightarrow>
          (let key = Event_SessionID event;
               cm2 = modifyCached cm1 key (appendAction (maxActions cm1) (Event event))
           in case processActionConsequences cm2 key (Event event) now of
                Inl p \<Rightarrow> Inl p
              | Inr cm3 \<Rightarrow> Inr (modifyCached cm3 key (stampEvent (Event event) now))))"

text \<open>One iteration of the worker's receive loop; with an empty queue the worker waits.\<close>

definition workerStep :: "ContextManager \<Rightarrow> timestamp \<Rightarrow> panic + ContextManager" where
  "workerStep cm now =
     (case eventQueue cm of
        [] \<Rightarrow> Inr cm
      | event # queue \<Rightarrow> processContextEvent (cm\<lparr>eventQueue := queue\<rparr>) event now)"

text \<open>The effect of the single worker on the sequence of events it dequeues, each with the
  clock reading at its processing.\<close>

fun processEventSequence ::
  "ContextManager \<Rightarrow> (ContextEvent \<times> timestamp) list \<Rightarrow> panic + ContextManager" where
  "processEventSequence cm [] = Inr cm"
| "processEventSequence cm ((event, now) # rest) =
     (case processContextEvent cm event now of
        Inl p \<Rightarrow> Inl p
      | Inr cm1 \<Rightarrow> processEventSequence cm1 rest)"

definition FlushContext :: "ContextManager \<Rightarrow> string \<Rightarrow> ContextManager \<times> error option" where
  "FlushContext cm sessionID =
     (case cache cm sessionID of
        Some ctx \<Rightarrow> (case SaveContext (storage cm) ctx of (st, err) \<Rightarrow> (cm\<lparr>storage := st\<rparr>, err))
      | None \<Rightarrow> (cm, None))"

definition IsSessionActive :: "ContextManager \<Rightarrow> string \<Rightarrow> bool" where
  "IsSessionActive cm sessionID = (cache cm sessionID \<noteq> None)"

section \<open>Prompt synthesis (ai_integration.go)\<close>

text \<open>\<open>count\<close> is an \<open>int\<close> in the source; the only caller passes the literal 5.\<close>

definition getActionSummary :: "ActionEvent list \<Rightarrow> nat \<Rightarrow> string list" where
  "getActionSummary actions count =
     (if length actions = 0 then [''No recent actions'']
      else (let startIdx = int (length actions) - int count;
                startIdx1 = (if startIdx < 0 then 0 else startIdx)
            in map (\<lambda>action. Action_Type action @ '': '' @ Command action @ '' -> '' @ Outcome action)
                   (drop (nat startIdx1) actions)))"

text \<open>The fields of the summary that do not depend on the wall clock, on floating point
  or on map iteration order.\<close>

record ContextSummary =
  CurrentLocation :: string
  PreviousLocation :: string
  PlayerReputation :: go_int
  RecentActions :: "string list"

definition GetContextSummary ::
  "ContextManager \<Rightarrow> string \<Rightarrow> timestamp \<Rightarrow> ContextManager \<times> ContextSummary option \<times> error option" where
  "GetContextSummary cm sessionID now =
     (case GetContext cm sessionID now of
        (cm1, ctx, Some err) \<Rightarrow> (cm1, None, Some err)
      | (cm1, ctx, None) \<Rightarrow>
          (cm1,
           Some \<lparr>CurrentLocation = Loc_Current (Location ctx),
                 PreviousLocation = Previous (Location ctx),
                 PlayerReputation = Reputation (Character ctx),
                 RecentActions = getActionSummary (Actions ctx) 5\<rparr>,
           None))"

text \<open>The entries of the prompt's RECENT PLAYER ACTIONS section, before they are joined
  with newlines.  \<open>timeSince\<close> stands for formatTimeSince, which reads the wall clock.\<close>

definition recentActionEntries :: "(timestamp \<Rightarrow> string) \<Rightarrow> ActionEvent list \<Rightarrow> string list" where
  "recentActionEntries timeSince actions =
     map (\<lambda>action. ''- '' @ timeSince (Action_Timestamp action) @ '' ago: '' @ Command action
                     @ '' ('' @ Action_Type action @ '') -> '' @ Outcome action) actions"

fun strings_Join :: "string list \<Rightarrow> string \<Rightarrow> string" where
  "strings_Join [] sep = []"
| "strings_Join [x] sep = x"
| "strings_Join (x # y # ys) sep = x @ sep @ strings_Join (y # ys) sep"

definition formatRecentActions :: "(timestamp \<Rightarrow> string) \<Rightarrow> ActionEvent list \<Rightarrow> string" where
  "formatRecentActions timeSince actions =
     (if length actions = 0 then ''- No recent actions''
      else strings_Join (recentActionEntries timeSince actions) [CHR 0x0A])"

text \<open>What GenerateAIPrompt passes to formatRecentActions: the result of
  \<open>GetRecentActions(sessionID, 3)\<close>.\<close>

definition promptRecentActions ::
  "ContextManager \<Rightarrow> string \<Rightarrow> timestamp \<Rightarrow> ActionEvent list" where
  "promptRecentActions cm sessionID now = fst (snd (GetRecentActions cm sessionID 3 now))"

section \<open>Sequences of engine operations\<close>

datatype operation =
    OpCreateSession string string string timestamp
  | OpGetContext string timestamp
  | OpRecordAction string string string string string string "string list" string timestamp
  | OpWorker timestamp
  | OpProcessContextEvent ContextEvent timestamp
  | OpUpdateLocation string string timestamp
  | OpUpdateNPCRelationship string string string go_int "string list" timestamp
  | OpUpdateCharacterHealth string go_int timestamp
  | OpUpdateReputation string go_int timestamp
  | OpFlushContext string
  | OpStorageFails bool

fun step :: "ContextManager \<Rightarrow> operation \<Rightarrow> panic + ContextManager" where
  "step cm (OpCreateSession playerID playerName uuid now) =
     Inr (fst (CreateSession cm playerID playerName uuid now))"
| "step cm (OpGetContext sessionID now) = Inr (fst (GetContext cm sessionID now))"
| "step cm (OpRecordAction sessionID command actionType target location outcome consequences uuid now) =
     Inr (fst (RecordAction cm sessionID command actionType target location outcome consequences uuid now))"
| "step cm (OpWorker now) = workerStep cm now"
| "step cm (OpProcessContextEvent event now) = processContextEvent cm event now"
| "step cm (OpUpdateLocation sessionID newLocation now) =
     Inr (fst (UpdateLocation cm sessionID newLocation now))"
| "step cm (OpUpdateNPCRelationship sessionID npcID npcName change facts now) =
     Inr (fst (UpdateNPCRelationship cm sessionID npcID npcName change facts now))"
| "step cm (OpUpdateCharacterHealth sessionID change now) =
     Inr (fst (UpdateCharacterHealth cm sessionID change now))"
| "step cm (OpUpdateReputation sessionID change now) =
     Inr (fst (UpdateReputation cm sessionID change now))"
| "step cm (OpFlushContext sessionID) = Inr (fst (FlushContext cm sessionID))"
| "step cm (OpStorageFails b) = Inr (cm\<lparr>storage := (storage cm)\<lparr>failing := b\<rparr>\<rparr>)"

fun run :: "ContextManager \<Rightarrow> operation list \<Rightarrow> panic + ContextManager" where
  "run cm [] = Inr cm"
| "run cm (operation # rest) =
     (case step cm operation of
        Inl p \<Rightarrow> Inl p
      | Inr cm1 \<Rightarrow> run cm1 rest)"

section \<open>Predicates on sessions and managers\<close>

text \<open>A property of every session the manager knows: the cached ones and the stored ones.\<close>

definition allSessions :: "(PlayerContext \<Rightarrow> bool) \<Rightarrow> ContextManager \<Rightarrow> bool" where
  "allSessions P cm =
     ((\<forall>sid ctx. cache cm sid = Some ctx \<longrightarrow> P ctx) \<and>
      (\<forall>sid ctx. contexts (storage cm) sid = Some ctx \<longrightarrow> P ctx))"

text \<open>While an event is processed, the session under the event's key satisfies a weaker
  property \<open>Q\<close> until the final clamp.\<close>

definition sessionsSat ::
  "(PlayerContext \<Rightarrow> bool) \<Rightarrow> (PlayerContext \<Rightarrow> bool) \<Rightarrow> string \<Rightarrow> ContextManager \<Rightarrow> bool" where
  "sessionsSat P Q key cm =
     ((\<forall>sid ctx. cache cm sid = Some ctx \<longrightarrow> (if sid = key then Q ctx else P ctx)) \<and>
      (\<forall>sid ctx. contexts (storage cm) sid = Some ctx \<longrightarrow> P ctx))"

definition queueSat :: "(ActionEvent \<Rightarrow> bool) \<Rightarrow> ContextManager \<Rightarrow> bool" where
  "queueSat A cm = (\<forall>e \<in> set (eventQueue cm). A (Event e))"

text \<open>What makes \<open>P\<close> an invariant of the manager: it holds of fresh sessions and every
  session-level effect keeps it, given that the operations satisfy \<open>G\<close> and the actions
  logged satisfy \<open>A\<close>.\<close>

definition preservedBy ::
  "(ActionEvent \<Rightarrow> bool) \<Rightarrow> (operation \<Rightarrow> bool) \<Rightarrow> (PlayerContext \<Rightarrow> bool)
     \<Rightarrow> (PlayerContext \<Rightarrow> bool) \<Rightarrow> bool" where
  "preservedBy A G P Q =
     ((\<forall>c. P c \<longrightarrow> Q c) \<and>
      (\<forall>sid now. P (createNewContext sid now)) \<and>
      (\<forall>pid name sid now. P (newSession pid name sid now)) \<and>
      (\<forall>sid loc now c. G (OpUpdateLocation sid loc now) \<longrightarrow> P c \<longrightarrow> P (locationEffect loc now c)) \<and>
      (\<forall>npcID npcName d facts now c. P c \<longrightarrow> P (npcEffect npcID npcName d facts now c)) \<and>
      (\<forall>npcID npcName d facts now c. Q c \<longrightarrow> Q (npcEffect npcID npcName d facts now c)) \<and>
      (\<forall>d now c. P c \<longrightarrow> P (healthEffect d now c)) \<and>
      (\<forall>d now c. P c \<longrightarrow> P (reputationEffect d now c)) \<and>
      (\<forall>n a c. A a \<longrightarrow> Q c \<longrightarrow> Q (appendAction n a c)) \<and>
      (\<forall>d c. Q c \<longrightarrow> Q (addReputation d c)) \<and>
      (\<forall>d c. Q c \<longrightarrow> Q (damageHealth d c)) \<and>
      (\<forall>d c. Q c \<longrightarrow> Q (healHealth d c)) \<and>
      (\<forall>i c. Q c \<longrightarrow> Q (gainItem i c)) \<and>
      (\<forall>i c. Q c \<longrightarrow> Q (removeItemFromInventory i c)) \<and>
      (\<forall>c. Q c \<longrightarrow> P (clampReputation c)) \<and>
      (\<forall>a now c. P c \<longrightarrow> P (stampEvent a now c)) \<and>
      (\<forall>ev now. G (OpProcessContextEvent ev now) \<longrightarrow> A (Event ev)) \<and>
      (\<forall>sid command actionType target location outcome consequences uuid now.
         G (OpRecordAction sid command actionType target location outcome consequences uuid now)
         \<longrightarrow> A (newAction command actionType target location outcome consequences uuid now)))"

text \<open>Reputation and dispositions lie in [-100, 100] (signed reading of the Go \<open>int\<close>).\<close>

definition inRange :: "go_int \<Rightarrow> bool" where
  "inRange x = (- 100 \<le> sint x \<and> sint x \<le> 100)"

definition dispositionsOK :: "PlayerContext \<Rightarrow> bool" where
  "dispositionsOK ctx =
     (\<forall>npcID rel. NPCStates ctx npcID = Some rel \<longrightarrow> inRange (Disposition rel))"

definition reputationOK :: "PlayerContext \<Rightarrow> bool" where
  "reputationOK ctx = (inRange (Reputation (Character ctx)) \<and> dispositionsOK ctx)"

text \<open>Health lies in [0, max].\<close>

definition healthOK :: "PlayerContext \<Rightarrow> bool" where
  "healthOK ctx =
     (0 \<le> sint (Health_Current (Health (Character ctx))) \<and>
      sint (Health_Current (Health (Character ctx))) \<le> sint (Health_Max (Health (Character ctx))))"

text \<open>No NPC's known-facts list has a duplicate.\<close>

definition factsOK :: "PlayerContext \<Rightarrow> bool" where
  "factsOK ctx =
     (\<forall>npcID rel. NPCStates ctx npcID = Some rel \<longrightarrow> distinct (KnownFacts rel))"





text \<open>The action log of a session as GetContext would find it: the cached session's, else
  the stored one's, else the empty log of a skeleton.\<close>

definition sessionLog :: "ContextManager \<Rightarrow> string \<Rightarrow> ActionEvent list" where
  "sessionLog cm sessionID =
     (case cache cm sessionID of
        Some ctx \<Rightarrow> Actions ctx
      | None \<Rightarrow>
          (case LoadContext (storage cm) sessionID of
             Inr ctx \<Rightarrow> Actions ctx
           | Inl err \<Rightarrow> []))"

text \<open>The last \<open>n\<close> elements of a list.\<close>

definition lastN :: "nat \<Rightarrow> 'a list \<Rightarrow> 'a list" where
  "lastN n xs = drop (length xs - n) xs"

text \<open>The events of a sequence that are addressed to one session, in order.\<close>

definition eventsFor :: "string \<Rightarrow> (ContextEvent \<times> timestamp) list \<Rightarrow> ActionEvent list" where
  "eventsFor sessionID evs =
     map (\<lambda>(event, now). Event event) (filter (\<lambda>(event, now). Event_SessionID event = sessionID) evs)"

text \<open>No action of the log carries the id \<open>u\<close>.\<close>

definition notLogged :: "string \<Rightarrow> PlayerContext \<Rightarrow> bool" where
  "notLogged u ctx = (u \<notin> Action_ID ` set (Actions ctx))"

text \<open>An operation that does not bring an action with the id \<open>u\<close> into the system.\<close>

fun otherID :: "string \<Rightarrow> operation \<Rightarrow> bool" where
  "otherID u (OpRecordAction sessionID command actionType target location outcome consequences uuid now) =
     (uuid \<noteq> u)"
| "otherID u (OpProcessContextEvent event now) = (Action_ID (Event event) \<noteq> u)"
| "otherID u operation = True"

text \<open>A run of submissions with the worker paused: each RecordAction call with its
  arguments, the UUID it draws and its clock reading.\<close>

record Submission =
  sub_sessionID :: string
  sub_command :: string
  sub_actionType :: string
  sub_target :: string
  sub_location :: string
  sub_outcome :: string
  sub_consequences :: "string list"
  sub_uuid :: string
  sub_now :: timestamp

definition submit :: "ContextManager \<Rightarrow> Submission \<Rightarrow> ContextManager \<times> error option" where
  "submit cm s =
     RecordAction cm (sub_sessionID s) (sub_command s) (sub_actionType s) (sub_target s)
       (sub_location s) (sub_outcome s) (sub_consequences s) (sub_uuid s) (sub_now s)"

definition submittedEvent :: "Submission \<Rightarrow> ContextEvent" where
  "submittedEvent s =
     \<lparr>Event_SessionID = sub_sessionID s,
      Event = newAction (sub_command s) (sub_actionType s) (sub_target s) (sub_location s)
                (sub_outcome s) (sub_consequences s) (sub_uuid s) (sub_now s),
      Event_Timestamp = sub_now s\<rparr>"

fun submitAll :: "ContextManager \<Rightarrow> Submission list \<Rightarrow> ContextManager \<times> error option list" where
  "submitAll cm [] = (cm, [])"
| "submitAll cm (s # ss) =
     (case submit cm s of
        (cm1, err) \<Rightarrow> (case submitAll cm1 ss of (cm2, errs) \<Rightarrow> (cm2, err # errs)))"

text \<open>The known facts of an NPC of a cached session.\<close>

definition knownFacts :: "ContextManager \<Rightarrow> string \<Rightarrow> string \<Rightarrow> string list option" where
  "knownFacts cm sessionID npcID =
     (case cache cm sessionID of
        None \<Rightarrow> None
      | Some ctx \<Rightarrow> map_option KnownFacts (NPCStates ctx npcID))"

section \<open>Scenarios\<close>

text \<open>A session is created, its reputation is pushed by 5000, an NPC is met with a
  disposition change of 150, and a quest_completed event carries a reputation reward of
  -100000 in its metadata.\<close>

definition adversarialOps :: "operation list" where
  "adversarialOps =
     [OpCreateSession ''p1'' ''Aragorn'' ''s1'' 1,
      OpUpdateReputation ''s1'' 5000 2,
      OpUpdateNPCRelationship ''s1'' ''npc1'' ''Bob'' 150 [''a''] 3,
      OpProcessContextEvent
        \<lparr>Event_SessionID = ''s1'',
         Event = (newAction ''/quest'' ''talk'' [] ''village'' ''done'' [''quest_completed''] ''a1'' 4)
                   \<lparr>Action_Metadata := [''reputation_reward'' \<mapsto> IntV (- 100000)]\<rparr>,
         Event_Timestamp = 4\<rparr> 5]"

text \<open>A session is created and the same NPC is updated twice, the second time with facts
  that repeat.\<close>

definition repeatedFactOps :: "operation list" where
  "repeatedFactOps =
     [OpCreateSession ''p1'' ''Aragorn'' ''s1'' 1,
      OpUpdateNPCRelationship ''s1'' ''npc1'' ''Bob'' 15 [''friendly_greeting'', ''helpful''] 2,
      OpUpdateNPCRelationship ''s1'' ''npc1'' ''Bob'' 0 [''helpful'', ''helpful''] 3]"


text \<open>A manager holding one freshly created session.\<close>

definition oneSessionManager :: ContextManager where
  "oneSessionManager =
     fst (CreateSession (NewContextManager NewMemoryStorage) ''p1'' ''Aragorn'' ''s1'' 1)"

text \<open>Four events, three of them for session s1, processed with a log bound of 2.\<close>

definition loggedEvent :: "string \<Rightarrow> string \<Rightarrow> timestamp \<Rightarrow> ContextEvent" where
  "loggedEvent sessionID uuid now =
     \<lparr>Event_SessionID = sessionID,
      Event = newAction ''/look'' ''look'' [] ''village'' ''You look around.'' [''combat_victory'']
                uuid now,
      Event_Timestamp = now\<rparr>"

definition fourEvents :: "(ContextEvent \<times> timestamp) list" where
  "fourEvents =
     [(loggedEvent ''s1'' ''a1'' 2, 3), (loggedEvent ''s2'' ''b1'' 4, 5),
      (loggedEvent ''s1'' ''a2'' 6, 7), (loggedEvent ''s1'' ''a3'' 8, 9)]"

text \<open>A manager whose queue of capacity 1 is full.\<close>

definition fullQueueManager :: ContextManager where
  "fullQueueManager =
     fst (RecordAction (oneSessionManager\<lparr>queueCapacity := 1\<rparr>)
            ''s1'' ''/look'' ''look'' [] ''village'' ''ok'' [] ''a1'' 2)"

definition sameSubmission :: Submission where
  "sameSubmission =
     \<lparr>sub_sessionID = ''s1'', sub_command = ''/look'', sub_actionType = ''look'',
      sub_target = [], sub_location = ''village'', sub_outcome = ''ok'', sub_consequences = [],
      sub_uuid = ''a1'', sub_now = 2\<rparr>"




section \<open>Session cache: GetContext and CreateSession\<close>

lemma GetContext_err: "snd (snd (GetContext cm sessionID now)) = None"
  by (simp add: GetContext_def Let_def split: option.splits)

lemma GetContext_None: "GetContext cm sessionID now = (cm1, ctx, e) \<Longrightarrow> e = None"
  using GetContext_err [of cm sessionID now] by simp

text \<open>
  Claim C5.  GetContext never returns an error: it returns the cached entry when there is
  one; otherwise the session loaded from the store, which it caches; and when the load
  reports an error (NotFound in particular) a fresh skeleton session, which it caches.
  In every case the returned session is the cache entry of the id afterwards.
\<close>

theorem GetContext_never_errors:
  "snd (snd (GetContext cm sessionID now)) = None \<and>
   (\<forall>cached. cache cm sessionID = Some cached \<longrightarrow>
      GetContext cm sessionID now = (cm, cached, None)) \<and>
   (\<forall>loaded. cache cm sessionID = None \<and> LoadContext (storage cm) sessionID = Inr loaded \<longrightarrow>
      GetContext cm sessionID now =
        (cm\<lparr>cache := (cache cm)(sessionID \<mapsto> loaded)\<rparr>, loaded, None)) \<and>
   (\<forall>err. cache cm sessionID = None \<and> LoadContext (storage cm) sessionID = Inl err \<longrightarrow>
      GetContext cm sessionID now =
        (cm\<lparr>cache := (cache cm)(sessionID \<mapsto> createNewContext sessionID now)\<rparr>,
         createNewContext sessionID now, None)) \<and>
   cache (fst (GetContext cm sessionID now)) sessionID =
     Some (fst (snd (GetContext cm sessionID now)))"
  by (auto simp: GetContext_def Let_def split: option.splits sum.splits)

theorem GetContext_never_errors_witness:
  "cache (NewContextManager NewMemoryStorage) ''ghost'' = None \<and>
   LoadContext (storage (NewContextManager NewMemoryStorage)) ''ghost'' =
     Inl (ContextNotFound ''ghost'') \<and>
   GetContext (NewContextManager NewMemoryStorage) ''ghost'' 7 =
     ((NewContextManager NewMemoryStorage)
        \<lparr>cache := (cache (NewContextManager NewMemoryStorage))
                    (''ghost'' \<mapsto> createNewContext ''ghost'' 7)\<rparr>,
      createNewContext ''ghost'' 7, None) \<and>
   cache oneSessionManager ''s1'' = Some (newSession ''p1'' ''Aragorn'' ''s1'' 1) \<and>
   GetContext oneSessionManager ''s1'' 7 =
     (oneSessionManager, newSession ''p1'' ''Aragorn'' ''s1'' 1, None) \<and>
   cache (NewContextManager (storage oneSessionManager)) ''s1'' = None \<and>
   LoadContext (storage (NewContextManager (storage oneSessionManager))) ''s1'' =
     Inr (newSession ''p1'' ''Aragorn'' ''s1'' 1) \<and>
   GetContext (NewContextManager (storage oneSessionManager)) ''s1'' 7 =
     ((NewContextManager (storage oneSessionManager))
        \<lparr>cache := (cache (NewContextManager (storage oneSessionManager)))
                    (''s1'' \<mapsto> newSession ''p1'' ''Aragorn'' ''s1'' 1)\<rparr>,
      newSession ''p1'' ''Aragorn'' ''s1'' 1, None)"
proof -
  have a: "cache (NewContextManager NewMemoryStorage) ''ghost'' = None"
    by (simp add: NewContextManager_def)
  have b: "LoadContext (storage (NewContextManager NewMemoryStorage)) ''ghost'' =
             Inl (ContextNotFound ''ghost'')"
    by (simp add: NewContextManager_def NewMemoryStorage_def LoadContext_def)
  have c: "cache oneSessionManager ''s1'' = Some (newSession ''p1'' ''Aragorn'' ''s1'' 1)"
    by (simp add: oneSessionManager_def CreateSession_def Let_def SaveContext_def
                  NewContextManager_def NewMemoryStorage_def)
  have d: "cache (NewContextManager (storage oneSessionManager)) ''s1'' = None"
    by (simp add: NewContextManager_def)
  have e: "LoadContext (storage (NewContextManager (storage oneSessionManager))) ''s1'' =
             Inr (newSession ''p1'' ''Aragorn'' ''s1'' 1)"
    by (simp add: oneSessionManager_def CreateSession_def Let_def SaveContext_def
                  NewContextManager_def NewMemoryStorage_def LoadContext_def newSession_def)
  from GetContext_never_errors [of "NewContextManager NewMemoryStorage" "''ghost''" 7]
    GetContext_never_errors [of oneSessionManager "''s1''" 7]
    GetContext_never_errors [of "NewContextManager (storage oneSessionManager)" "''s1''" 7]
    a b c d e
  show ?thesis by blast
qed



text \<open>The session built by a CreateSession whose save failed stays in the cache, under
  the id that was not returned.\<close>

lemma CreateSession_save_failure_cached:
  "failing (storage cm) \<Longrightarrow>
   IsSessionActive (fst (CreateSession cm playerID playerName uuid now)) uuid"
  by (simp add: CreateSession_def SaveContext_def Let_def IsSessionActive_def)

text \<open>
  Claim C10.  For an id absent from the cache and from the store, the session GetContext
  returns and caches is the skeleton: location "unknown", health 20/20, reputation 0, empty
  action log, no NPC, no attribute, visit count 0.  The session CreateSession caches
  starts at "starting_village" with visit count 1 and the four attributes at 10.
\<close>

theorem skeleton_session_fields:
  assumes "cache cm sessionID = None" and "contexts (storage cm) sessionID = None"
  shows "(\<exists>ctx. GetContext cm sessionID now =
                  (cm\<lparr>cache := (cache cm)(sessionID \<mapsto> ctx)\<rparr>, ctx, None) \<and>
           Loc_Current (Location ctx) = ''unknown'' \<and>
           Health_Current (Health (Character ctx)) = 20 \<and>
           Health_Max (Health (Character ctx)) = 20 \<and>
           Reputation (Character ctx) = 0 \<and>
           Actions ctx = [] \<and>
           NPCStates ctx = Map.empty \<and>
           Attributes (Character ctx) = Map.empty \<and>
           VisitCount (Location ctx) = 0) \<and>
         (\<exists>ctx. cache (fst (CreateSession cm playerID playerName uuid now)) uuid = Some ctx \<and>
           Loc_Current (Location ctx) = ''starting_village'' \<and>
           VisitCount (Location ctx) = 1 \<and>
           Attributes (Character ctx) =
             [''strength'' \<mapsto> 10, ''dexterity'' \<mapsto> 10,
              ''intelligence'' \<mapsto> 10, ''charisma'' \<mapsto> 10])"
  using assms
  by (auto simp: GetContext_def LoadContext_def createNewContext_def CreateSession_def newSession_def
                 Let_def SaveContext_def split: option.splits)

theorem skeleton_session_fields_witness:
  "cache (NewContextManager NewMemoryStorage) ''typo'' = None \<and>
   contexts (storage (NewContextManager NewMemoryStorage)) ''typo'' = None \<and>
   (\<exists>ctx. GetContext (NewContextManager NewMemoryStorage) ''typo'' 3 =
            ((NewContextManager NewMemoryStorage)
               \<lparr>cache := (cache (NewContextManager NewMemoryStorage))(''typo'' \<mapsto> ctx)\<rparr>, ctx, None) \<and>
          Loc_Current (Location ctx) = ''unknown'' \<and>
          Health_Current (Health (Character ctx)) = 20 \<and>
          Health_Max (Health (Character ctx)) = 20 \<and>
          Reputation (Character ctx) = 0 \<and>
          Actions ctx = [] \<and>
          NPCStates ctx = Map.empty \<and>
          Attributes (Character ctx) = Map.empty \<and>
          VisitCount (Location ctx) = 0) \<and>
   (\<exists>ctx. cache (fst (CreateSession (NewContextManager NewMemoryStorage)
                         ''p1'' ''Aragorn'' ''uuid-1'' 3)) ''uuid-1'' = Some ctx \<and>
          Loc_Current (Location ctx) = ''starting_village'' \<and>
          VisitCount (Location ctx) = 1 \<and>
          Attributes (Character ctx) =
            [''strength'' \<mapsto> 10, ''dexterity'' \<mapsto> 10,
             ''intelligence'' \<mapsto> 10, ''charisma'' \<mapsto> 10])"
proof -
  have a: "cache (NewContextManager NewMemoryStorage) ''typo'' = None"
    by (simp add: NewContextManager_def)
  have b: "contexts (storage (NewContextManager NewMemoryStorage)) ''typo'' = None"
    by (simp add: NewContextManager_def NewMemoryStorage_def)
  from skeleton_session_fields [OF a b, of 3 "''p1''" "''Aragorn''" "''uuid-1''"] a b
  show ?thesis by simp
qed

section \<open>Prompt synthesis: the recent-actions list is bounded\<close>

lemma length_getActionSummary: "length (getActionSummary actions count) \<le> max 1 count"
  by (auto simp: getActionSummary_def Let_def)

lemma length_GetRecentActions:
  "length (fst (snd (GetRecentActions cm sessionID count now))) \<le> count"
  by (cases "GetContext cm sessionID now")
     (auto simp: GetRecentActions_def Let_def dest: GetContext_None split: option.splits)

text \<open>
  Claim C9.  Whatever the length of the action log, the summary's recent-actions list has
  at most 5 entries, and the prompt's recent-actions section is built from at most 3
  actions, one entry each.
\<close>

theorem recent_actions_bounded:
  "length (getActionSummary actions 5) \<le> 5 \<and>
   (case fst (snd (GetContextSummary cm sessionID now)) of
      Some summary \<Rightarrow> length (RecentActions summary) \<le> 5
    | None \<Rightarrow> False) \<and>
   length (promptRecentActions cm sessionID now) \<le> 3 \<and>
   length (recentActionEntries timeSince (promptRecentActions cm sessionID now)) \<le> 3"
proof -
  have a: "length (getActionSummary as 5) \<le> 5" for as
    using length_getActionSummary [of as 5] by simp
  have b: "length (promptRecentActions cm sessionID now) \<le> 3"
    unfolding promptRecentActions_def by (rule length_GetRecentActions)
  have c: "(case fst (snd (GetContextSummary cm sessionID now)) of
      Some summary \<Rightarrow> length (RecentActions summary) \<le> 5
    | None \<Rightarrow> False)"
    by (cases "GetContext cm sessionID now")
       (auto simp: GetContextSummary_def a dest: GetContext_None split: option.splits)
  show ?thesis using a b c by (simp add: recentActionEntries_def)
qed

section \<open>Invariants of the manager\<close>

text \<open>
  A property of sessions that every session-level effect keeps is kept by every engine
  operation, on all cached and stored sessions.  The lemmas follow the structure of the
  code: GetContext, the direct mutators, one consequence, the loop over consequences, one
  event, one operation, a run.
\<close>

lemma allSessions_sat: "allSessions P cm = sessionsSat P P key cm"
  by (simp add: allSessions_def sessionsSat_def)

lemma sessionsSat_weaken:
  "allSessions P cm \<Longrightarrow> (\<And>c. P c \<Longrightarrow> Q c) \<Longrightarrow> sessionsSat P Q key cm"
  by (simp add: allSessions_def sessionsSat_def)

lemma GetContext_sat:
  assumes "(\<forall>c. P c \<longrightarrow> Q c) \<and> (\<forall>sid now. P (createNewContext sid now))"
    and "sessionsSat P Q key cm"
    and "GetContext cm sid now = (cm1, ctx, e)"
  shows "sessionsSat P Q key cm1 \<and> cache cm1 sid = Some ctx"
proof (cases "cache cm sid")
  case (Some c)
  with assms show ?thesis by (auto simp: GetContext_def)
next
  case None
  define x where "x = (case LoadContext (storage cm) sid of Inr l \<Rightarrow> l | Inl err \<Rightarrow> createNewContext sid now)"
  have r: "cm1 = cm\<lparr>cache := (cache cm)(sid \<mapsto> x)\<rparr>" "ctx = x"
    using assms(3) None by (auto simp: GetContext_def Let_def x_def)
  have "P x"
    using assms(1,2) unfolding x_def sessionsSat_def LoadContext_def
    by (auto split: sum.splits option.splits if_splits)
  moreover have "Q x" using \<open>P x\<close> assms(1) by simp
  ultimately show ?thesis using assms(2) r by (auto simp: sessionsSat_def)
qed

lemma cache_upd_sat:
  assumes "sessionsSat P Q key cm" and "if sid = key then Q c else P c"
  shows "sessionsSat P Q key (cm\<lparr>cache := (cache cm)(sid \<mapsto> c)\<rparr>)"
  using assms by (auto simp: sessionsSat_def)

lemma mutator_sat:
  assumes pb: "(\<forall>c. P c \<longrightarrow> Q c) \<and> (\<forall>sid now. P (createNewContext sid now))"
    and s: "sessionsSat P Q key cm"
    and g: "GetContext cm sid now = (cm1, ctx, e)"
    and fP: "\<And>c. P c \<Longrightarrow> P (f c)" and fQ: "\<And>c. Q c \<Longrightarrow> Q (f c)"
  shows "sessionsSat P Q key (cm1\<lparr>cache := (cache cm1)(sid \<mapsto> f ctx)\<rparr>)"
proof -
  from GetContext_sat [OF pb s g] have s1: "sessionsSat P Q key cm1" and c: "cache cm1 sid = Some ctx"
    by auto
  from s1 c have "if sid = key then Q ctx else P ctx" by (auto simp: sessionsSat_def)
  then have "if sid = key then Q (f ctx) else P (f ctx)" using fP fQ by (auto split: if_splits)
  then show ?thesis by (rule cache_upd_sat [OF s1])
qed

lemma preservedBy_fresh:
  "preservedBy A G P Q \<Longrightarrow> (\<forall>c. P c \<longrightarrow> Q c) \<and> (\<forall>sid now. P (createNewContext sid now))"
  by (simp add: preservedBy_def)

lemma UpdateNPCRelationship_sat:
  assumes pb0: "preservedBy A G P Q" and s: "sessionsSat P Q key cm"
  shows "sessionsSat P Q key (fst (UpdateNPCRelationship cm sid npcID npcName d facts now))"
proof -
  note pb = preservedBy_fresh [OF pb0]
  obtain cm1 ctx e where g: "GetContext cm sid now = (cm1, ctx, e)"
    by (cases "GetContext cm sid now") auto
  have e: "e = None" using g by (rule GetContext_None)
  have "sessionsSat P Q key (cm1\<lparr>cache := (cache cm1)(sid \<mapsto> npcEffect npcID npcName d facts now ctx)\<rparr>)"
    using pb0 by (intro mutator_sat [OF pb s g]) (auto simp: preservedBy_def)
  then show ?thesis by (simp add: UpdateNPCRelationship_def g e)
qed

lemma modifyCached_sat:
  assumes "sessionsSat P Q key cm" and "\<And>c. Q c \<Longrightarrow> Q (f c)"
  shows "sessionsSat P Q key (modifyCached cm key f)"
  using assms by (auto simp: sessionsSat_def modifyCached_def split: option.splits)

lemma modifyCached_all:
  assumes "sessionsSat P Q key cm" and "\<And>c. Q c \<Longrightarrow> P (f c)"
  shows "allSessions P (modifyCached cm key f)"
proof (cases "cache cm key")
  case None
  then have "cache cm sid = Some ctx \<Longrightarrow> sid \<noteq> key" for sid ctx by auto
  then show ?thesis using assms(1) None
    by (auto simp: sessionsSat_def allSessions_def modifyCached_def split: if_splits)
next
  case (Some c)
  then show ?thesis using assms
    by (auto simp: sessionsSat_def allSessions_def modifyCached_def split: if_splits)
qed

lemma modifyCached_allP:
  assumes "allSessions P cm" and "\<And>c. P c \<Longrightarrow> P (f c)"
  shows "allSessions P (modifyCached cm key f)"
  using assms by (auto simp: allSessions_def modifyCached_def split: option.splits)

lemma applyConsequence_sat:
  assumes pb: "preservedBy A G P Q" and s: "sessionsSat P Q key cm"
    and a: "applyConsequence cm key action now c = Inr cm'"
  shows "sessionsSat P Q key cm'"
proof -
  have m: "sessionsSat P Q key (modifyCached cm key f)" if "\<And>c. Q c \<Longrightarrow> Q (f c)" for f
    using s that by (rule modifyCached_sat)
  have r: "sessionsSat P Q key (modifyCached cm key (addReputation d))" for d
    using pb by (intro m) (simp add: preservedBy_def)
  have dm: "sessionsSat P Q key (modifyCached cm key (damageHealth d))" for d
    using pb by (intro m) (simp add: preservedBy_def)
  have hl: "sessionsSat P Q key (modifyCached cm key (healHealth d))" for d
    using pb by (intro m) (simp add: preservedBy_def)
  have gi: "sessionsSat P Q key (modifyCached cm key (gainItem d))" for d
    using pb by (intro m) (simp add: preservedBy_def)
  have ri: "sessionsSat P Q key (modifyCached cm key (removeItemFromInventory d))" for d
    using pb by (intro m) (simp add: preservedBy_def)
  have n: "sessionsSat P Q key (fst (UpdateNPCRelationship cm sid npcID npcName d facts now))"
    for sid npcID npcName d facts
    using pb s by (rule UpdateNPCRelationship_sat)
  show ?thesis
    using a s r dm hl gi ri n unfolding applyConsequence_def Let_def
    by (auto split: if_splits option.splits mvalue.splits)
qed

lemma consequenceLoop_sat:
  assumes pb: "preservedBy A G P Q"
  shows "sessionsSat P Q key cm \<Longrightarrow> consequenceLoop cm key action now cs = Inr cm'
         \<Longrightarrow> sessionsSat P Q key cm'"
proof (induction cs arbitrary: cm)
  case Nil
  then show ?case by simp
next
  case (Cons c cs)
  then show ?case
    by (auto split: sum.splits dest: applyConsequence_sat [OF pb])
qed

lemma processContextEvent_all:
  assumes pb: "preservedBy A G P Q" and s: "allSessions P cm" and a: "A (Event event)"
    and p: "processContextEvent cm event now = Inr cm'"
  shows "allSessions P cm'"
proof -
  let ?key = "Event_SessionID event"
  obtain cm1 ctx e where g: "GetContext cm ?key now = (cm1, ctx, e)"
    by (cases "GetContext cm ?key now") auto
  have e: "e = None" using g by (rule GetContext_None)
  have pq: "\<And>c. P c \<Longrightarrow> Q c" using pb by (simp add: preservedBy_def)
  have s0: "sessionsSat P Q ?key cm" using s pq by (rule sessionsSat_weaken)
  have s1: "sessionsSat P Q ?key cm1"
    using GetContext_sat [OF preservedBy_fresh [OF pb] s0 g] by simp
  have s2: "sessionsSat P Q ?key (modifyCached cm1 ?key (appendAction (maxActions cm1) (Event event)))"
    using pb a by (intro modifyCached_sat [OF s1]) (simp add: preservedBy_def)
  from p g e obtain cm3 where
    l: "consequenceLoop (modifyCached cm1 ?key (appendAction (maxActions cm1) (Event event)))
          ?key (Event event) now (Consequences (Event event)) = Inr cm3"
    and r: "cm' = modifyCached (modifyCached cm3 ?key clampReputation) ?key (stampEvent (Event event) now)"
    by (auto simp: processContextEvent_def processActionConsequences_def Let_def split: sum.splits)
  have s3: "sessionsSat P Q ?key cm3" using consequenceLoop_sat [OF pb s2 l] .
  have s4: "allSessions P (modifyCached cm3 ?key clampReputation)"
    using pb by (intro modifyCached_all [OF s3]) (simp add: preservedBy_def)
  have "allSessions P (modifyCached (modifyCached cm3 ?key clampReputation) ?key (stampEvent (Event event) now))"
    using pb by (intro modifyCached_allP [OF s4]) (simp add: preservedBy_def)
  then show ?thesis by (simp add: r)
qed

lemma SaveContext_all:
  assumes "allSessions P cm" and "P ctx"
  shows "allSessions P (cm\<lparr>storage := fst (SaveContext (storage cm) ctx)\<rparr>)"
  using assms by (auto simp: allSessions_def SaveContext_def)

lemma all_mutator:
  assumes pb: "preservedBy A G P Q" and s: "allSessions P cm"
    and fP: "\<And>c. P c \<Longrightarrow> P (f c)"
  shows "allSessions P (case GetContext cm sid now of
           (cm1, ctx, e) \<Rightarrow> cm1\<lparr>cache := (cache cm1)(sid \<mapsto> f ctx)\<rparr>)"
proof -
  obtain cm1 ctx e where g: "GetContext cm sid now = (cm1, ctx, e)"
    by (cases "GetContext cm sid now") auto
  have pb': "(\<forall>c. P c \<longrightarrow> P c) \<and> (\<forall>sid now. P (createNewContext sid now))"
    using pb by (simp add: preservedBy_def)
  have "sessionsSat P P sid (cm1\<lparr>cache := (cache cm1)(sid \<mapsto> f ctx)\<rparr>)"
    using s fP by (intro mutator_sat [OF pb' _ g]) (auto simp: allSessions_sat [of _ _ sid])
  then show ?thesis by (simp add: g allSessions_sat [of _ _ sid])
qed

lemma step_all:
  assumes pb: "preservedBy A G P Q" and s: "allSessions P cm" and q: "queueSat A cm"
    and g: "G operation" and p: "step cm operation = Inr cm'"
  shows "allSessions P cm'"
proof (cases operation)
  case (OpCreateSession pid name uuid now)
  have "P (newSession pid name uuid now)" using pb by (simp add: preservedBy_def)
  then show ?thesis using s p OpCreateSession
    by (auto simp: CreateSession_def Let_def allSessions_def SaveContext_def split: if_splits)
next
  case (OpGetContext sid now)
  obtain cm1 ctx e where r: "GetContext cm sid now = (cm1, ctx, e)"
    by (cases "GetContext cm sid now") auto
  have pb': "(\<forall>c. P c \<longrightarrow> P c) \<and> (\<forall>sid now. P (createNewContext sid now))"
    using pb by (simp add: preservedBy_def)
  have "sessionsSat P P sid cm1"
    using GetContext_sat [OF pb' _ r] s by (simp add: allSessions_sat [of _ _ sid])
  then show ?thesis using p OpGetContext r by (simp add: allSessions_sat [of _ _ sid])
next
  case (OpRecordAction x31 x32 x33 x34 x35 x36 x37 x38 x39)
  then show ?thesis using s p by (auto simp: RecordAction_def Let_def allSessions_def split: if_splits)
next
  case (OpWorker now)
  show ?thesis
  proof (cases "eventQueue cm")
    case Nil
    then show ?thesis using s p OpWorker by (simp add: workerStep_def)
  next
    case (Cons ev qu)
    have "allSessions P (cm\<lparr>eventQueue := qu\<rparr>)" using s by (simp add: allSessions_def)
    moreover have "A (Event ev)" using q Cons by (simp add: queueSat_def)
    ultimately show ?thesis using p OpWorker Cons processContextEvent_all [OF pb]
      by (auto simp: workerStep_def)
  qed
next
  case (OpProcessContextEvent ev now)
  then have "A (Event ev)" using g pb unfolding preservedBy_def by blast
  then show ?thesis using OpProcessContextEvent p s processContextEvent_all [OF pb] by auto
next
  case (OpUpdateLocation sid loc now)
  have "allSessions P (case GetContext cm sid now of
           (cm1, ctx, e) \<Rightarrow> cm1\<lparr>cache := (cache cm1)(sid \<mapsto> locationEffect loc now ctx)\<rparr>)"
    using pb s g OpUpdateLocation by (intro all_mutator [OF pb s]) (auto simp: preservedBy_def)
  then show ?thesis using p OpUpdateLocation
    by (auto simp: UpdateLocation_def split: prod.splits option.splits dest: GetContext_None)
next
  case (OpUpdateNPCRelationship sid npcID npcName d facts now)
  have "allSessions P (case GetContext cm sid now of
           (cm1, ctx, e) \<Rightarrow> cm1\<lparr>cache := (cache cm1)(sid \<mapsto> npcEffect npcID npcName d facts now ctx)\<rparr>)"
    using pb by (intro all_mutator [OF pb s]) (auto simp: preservedBy_def)
  then show ?thesis using p OpUpdateNPCRelationship
    by (auto simp: UpdateNPCRelationship_def split: prod.splits option.splits dest: GetContext_None)
next
  case (OpUpdateCharacterHealth sid d now)
  have "allSessions P (case GetContext cm sid now of
           (cm1, ctx, e) \<Rightarrow> cm1\<lparr>cache := (cache cm1)(sid \<mapsto> healthEffect d now ctx)\<rparr>)"
    using pb by (intro all_mutator [OF pb s]) (auto simp: preservedBy_def)
  then show ?thesis using p OpUpdateCharacterHealth
    by (auto simp: UpdateCharacterHealth_def split: prod.splits option.splits dest: GetContext_None)
next
  case (OpUpdateReputation sid d now)
  have "allSessions P (case GetContext cm sid now of
           (cm1, ctx, e) \<Rightarrow> cm1\<lparr>cache := (cache cm1)(sid \<mapsto> reputationEffect d now ctx)\<rparr>)"
    using pb by (intro all_mutator [OF pb s]) (auto simp: preservedBy_def)
  then show ?thesis using p OpUpdateReputation
    by (auto simp: UpdateReputation_def split: prod.splits option.splits dest: GetContext_None)
next
  case (OpFlushContext sid)
  then show ?thesis using s p
    by (auto simp: FlushContext_def allSessions_def SaveContext_def split: option.splits if_splits)
next
  case (OpStorageFails b)
  then show ?thesis using s p by (auto simp: allSessions_def)
qed

lemma eventQueue_GetContext [simp]:
  "eventQueue (fst (GetContext cm sid now)) = eventQueue cm"
  by (simp add: GetContext_def Let_def split: option.splits)

lemma eventQueue_GetContext_eq:
  "GetContext cm sid now = (cm1, ctx, e) \<Longrightarrow> eventQueue cm1 = eventQueue cm"
  using eventQueue_GetContext [of cm sid now] by simp

lemma eventQueue_modifyCached [simp]: "eventQueue (modifyCached cm key f) = eventQueue cm"
  by (simp add: modifyCached_def split: option.splits)

lemma eventQueue_UpdateNPCRelationship [simp]:
  "eventQueue (fst (UpdateNPCRelationship cm sid npcID npcName d facts now)) = eventQueue cm"
  by (auto simp: UpdateNPCRelationship_def split: prod.splits option.splits
           dest: eventQueue_GetContext_eq)

lemma eventQueue_applyConsequence:
  "applyConsequence cm key action now c = Inr cm' \<Longrightarrow> eventQueue cm' = eventQueue cm"
  unfolding applyConsequence_def Let_def
  by (auto split: if_splits option.splits mvalue.splits)

lemma eventQueue_consequenceLoop:
  "consequenceLoop cm key action now cs = Inr cm' \<Longrightarrow> eventQueue cm' = eventQueue cm"
  by (induction cs arbitrary: cm) (auto split: sum.splits dest: eventQueue_applyConsequence)

lemma eventQueue_processContextEvent:
  "processContextEvent cm event now = Inr cm' \<Longrightarrow> eventQueue cm' = eventQueue cm"
  by (auto simp: processContextEvent_def processActionConsequences_def Let_def
           split: prod.splits option.splits sum.splits
           dest!: eventQueue_consequenceLoop eventQueue_GetContext_eq)

lemma step_queue:
  assumes pb: "preservedBy A G P Q" and q: "queueSat A cm"
    and g: "G operation" and p: "step cm operation = Inr cm'"
  shows "queueSat A cm'"
proof (cases operation)
  case (OpRecordAction sid command actionType target location outcome consequences uuid now)
  then have "A (newAction command actionType target location outcome consequences uuid now)"
    using g pb unfolding preservedBy_def by blast
  then show ?thesis using q p OpRecordAction
    by (auto simp: RecordAction_def Let_def queueSat_def split: if_splits)
next
  case (OpWorker now)
  then show ?thesis using q p
    by (auto simp: workerStep_def queueSat_def split: list.splits
             dest!: eventQueue_processContextEvent)
next
  case (OpProcessContextEvent ev now)
  then show ?thesis using q p by (auto simp: queueSat_def dest!: eventQueue_processContextEvent)
next
  case (OpCreateSession pid name uuid now)
  then show ?thesis using q p
    by (auto simp: queueSat_def CreateSession_def Let_def SaveContext_def split: if_splits)
next
  case (OpGetContext sid now)
  then show ?thesis using q p by (auto simp: queueSat_def)
next
  case (OpUpdateLocation sid loc now)
  then show ?thesis using q p
    by (auto simp: queueSat_def UpdateLocation_def split: prod.splits option.splits
             dest!: eventQueue_GetContext_eq)
next
  case (OpUpdateNPCRelationship sid npcID npcName d facts now)
  then show ?thesis using q p by (auto simp: queueSat_def)
next
  case (OpUpdateCharacterHealth sid d now)
  then show ?thesis using q p
    by (auto simp: queueSat_def UpdateCharacterHealth_def split: prod.splits option.splits
             dest!: eventQueue_GetContext_eq)
next
  case (OpUpdateReputation sid d now)
  then show ?thesis using q p
    by (auto simp: queueSat_def UpdateReputation_def split: prod.splits option.splits
             dest!: eventQueue_GetContext_eq)
next
  case (OpFlushContext sid)
  then show ?thesis using q p
    by (auto simp: queueSat_def FlushContext_def SaveContext_def split: option.splits if_splits)
next
  case (OpStorageFails b)
  then show ?thesis using q p by (auto simp: queueSat_def)
qed

lemma run_all:
  assumes pb: "preservedBy A G P Q"
  shows "allSessions P cm \<Longrightarrow> queueSat A cm \<Longrightarrow> \<forall>operation \<in> set ops. G operation
         \<Longrightarrow> run cm ops = Inr cm' \<Longrightarrow> allSessions P cm' \<and> queueSat A cm'"
proof (induction ops arbitrary: cm)
  case Nil
  then show ?case by simp
next
  case (Cons operation ops)
  from Cons.prems obtain cm1 where st: "step cm operation = Inr cm1" and r: "run cm1 ops = Inr cm'"
    by (auto split: sum.splits)
  have g: "G operation" using Cons.prems by simp
  have "allSessions P cm1" using step_all [OF pb Cons.prems(1,2) g st] .
  moreover have "queueSat A cm1" using step_queue [OF pb Cons.prems(2) g st] .
  ultimately show ?case using Cons.IH r Cons.prems(3) by simp
qed

section \<open>Evaluating the model on concrete inputs\<close>

lemmas model_defs =
  NewContextManager_def NewMemoryStorage_def CreateSession_def newSession_def SaveContext_def
  LoadContext_def GetContext_def createNewContext_def UpdateReputation_def reputationEffect_def
  UpdateNPCRelationship_def npcEffect_def UpdateLocation_def locationEffect_def
  UpdateCharacterHealth_def healthEffect_def calculateMood_def
  processContextEvent_def processActionConsequences_def applyConsequence_def modifyCached_def
  appendAction_def addReputation_def damageHealth_def healHealth_def gainItem_def
  removeItemFromInventory_def clampReputation_def stampEvent_def updateSessionStats_def
  newAction_def RecordAction_def workerStep_def FlushContext_def IsZero_def

lemma allSessions_fresh_manager: "allSessions P (NewContextManager NewMemoryStorage)"
  by (simp add: allSessions_def NewContextManager_def NewMemoryStorage_def)

section \<open>Reputation and disposition stay in range\<close>

lemma inRange_consts [simp]: "inRange 0" "inRange 100" "inRange (- 100)"
  by (simp_all add: inRange_def)

lemma inRange_between: "\<not> 100 <s d \<Longrightarrow> \<not> d <s - 100 \<Longrightarrow> inRange d"
  by (simp add: inRange_def word_sless_alt)

lemma clamp_inRange:
  "inRange (if 100 <s d then 100 else if d <s - 100 then - 100 else d)"
  by (simp add: inRange_between)

lemma dispositionsOK_npcEffect:
  "dispositionsOK c \<Longrightarrow> dispositionsOK (npcEffect npcID npcName d facts now c)"
  by (auto simp: dispositionsOK_def npcEffect_def Let_def inRange_between
           split: option.splits if_splits)

text \<open>During the loop over consequences the reputation of the session being processed is
  unconstrained; the clamp after the loop restores the range.\<close>

lemma reputation_preserved:
  "preservedBy (\<lambda>a. True) (\<lambda>operation. True) reputationOK dispositionsOK"
  unfolding preservedBy_def
proof (intro conjI allI impI)
  fix npcID npcName d facts now c
  assume "reputationOK c"
  then show "reputationOK (npcEffect npcID npcName d facts now c)"
    using dispositionsOK_npcEffect [of c npcID npcName d facts now]
    by (auto simp: reputationOK_def npcEffect_def Let_def split: option.splits prod.splits)
next
  fix npcID npcName d facts now c
  assume "dispositionsOK c"
  then show "dispositionsOK (npcEffect npcID npcName d facts now c)"
    by (rule dispositionsOK_npcEffect)
next
  fix d now c
  assume "reputationOK c"
  then show "reputationOK (reputationEffect d now c)"
    using clamp_inRange [of "Reputation (Character c) + d"]
    by (simp add: reputationOK_def reputationEffect_def Let_def dispositionsOK_def)
next
  fix c
  assume "dispositionsOK c"
  then show "reputationOK (clampReputation c)"
    using clamp_inRange [of "Reputation (Character c)"]
    by (auto simp: reputationOK_def clampReputation_def Let_def dispositionsOK_def split: if_splits)
qed (auto simp: reputationOK_def dispositionsOK_def createNewContext_def newSession_def
      locationEffect_def healthEffect_def appendAction_def addReputation_def damageHealth_def
      healHealth_def gainItem_def removeItemFromInventory_def stampEvent_def updateSessionStats_def
      Let_def)

lemma adversarialOps_run:
  "\<exists>cm'. run (NewContextManager NewMemoryStorage) adversarialOps = Inr cm' \<and>
         map_option (\<lambda>c. Reputation (Character c)) (cache cm' ''s1'') = Some (- 100) \<and>
         map_option (\<lambda>c. map_option Disposition (NPCStates c ''npc1'')) (cache cm' ''s1'')
           = Some (Some 100)"
  by (simp add: adversarialOps_def model_defs Let_def word_sless_alt word_sle_eq)

text \<open>
  Claim C1.  If the reputation of every session and the disposition of every NPC lie in
  [-100, 100], they still do after any sequence of engine operations that does not
  panic: UpdateReputation and UpdateNPCRelationship with any delta, and the processing
  of any event, whatever its consequence tags and metadata.
\<close>

theorem reputation_disposition_clamped:
  assumes "allSessions reputationOK cm" and "run cm ops = Inr cm'"
  shows "allSessions reputationOK cm'"
  using run_all [OF reputation_preserved assms(1) _ _ assms(2)]
  by (simp add: queueSat_def)

theorem reputation_disposition_clamped_witness:
  "allSessions reputationOK (NewContextManager NewMemoryStorage) \<and>
   (\<exists>cm'. run (NewContextManager NewMemoryStorage) adversarialOps = Inr cm' \<and>
          allSessions reputationOK cm' \<and>
          map_option (\<lambda>c. Reputation (Character c)) (cache cm' ''s1'') = Some (- 100) \<and>
          map_option (\<lambda>c. map_option Disposition (NPCStates c ''npc1'')) (cache cm' ''s1'')
            = Some (Some 100))"
proof -
  have a: "allSessions reputationOK (NewContextManager NewMemoryStorage)"
    by (rule allSessions_fresh_manager)
  from adversarialOps_run obtain cm' where
    r: "run (NewContextManager NewMemoryStorage) adversarialOps = Inr cm'"
    and v: "map_option (\<lambda>c. Reputation (Character c)) (cache cm' ''s1'') = Some (- 100)"
      "map_option (\<lambda>c. map_option Disposition (NPCStates c ''npc1'')) (cache cm' ''s1'')
         = Some (Some 100)"
    by blast
  from reputation_disposition_clamped [OF a r] a r v show ?thesis by blast
qed

section \<open>Known facts behave as a set\<close>

lemma contains_iff: "contains xs x \<longleftrightarrow> x \<in> set xs"
  by (induction xs) auto

lemma distinct_addNewFacts: "distinct known \<Longrightarrow> distinct (addNewFacts known facts)"
  by (induction facts arbitrary: known) (auto simp: contains_iff)

lemma set_addNewFacts: "set (addNewFacts known facts) = set known \<union> set facts"
  by (induction facts arbitrary: known) (auto simp: contains_iff)

lemma addNewFacts_known: "set facts \<subseteq> set known \<Longrightarrow> addNewFacts known facts = known"
  by (induction facts arbitrary: known) (auto simp: contains_iff)

lemma facts_preserved: "preservedBy (\<lambda>a. True) (\<lambda>operation. True) factsOK factsOK"
  unfolding preservedBy_def
proof (intro conjI allI impI)
  fix npcID npcName d facts now c
  assume "factsOK c"
  then show "factsOK (npcEffect npcID npcName d facts now c)"
    by (auto simp: factsOK_def npcEffect_def Let_def distinct_addNewFacts split: option.splits)
  then show "factsOK (npcEffect npcID npcName d facts now c)" .
qed (auto simp: factsOK_def createNewContext_def newSession_def
      locationEffect_def healthEffect_def reputationEffect_def appendAction_def addReputation_def
      damageHealth_def healHealth_def gainItem_def removeItemFromInventory_def stampEvent_def
      updateSessionStats_def clampReputation_def Let_def)

lemma knownFacts_UpdateNPCRelationship:
  "knownFacts (fst (UpdateNPCRelationship cm sid npcID npcName d facts now)) sid npcID =
     Some (addNewFacts (case knownFacts (fst (GetContext cm sid now)) sid npcID of
                          None \<Rightarrow> [] | Some known \<Rightarrow> known) facts)"
  by (cases "GetContext cm sid now")
     (auto simp: UpdateNPCRelationship_def knownFacts_def npcEffect_def Let_def GetContext_def
           split: option.splits prod.splits)

lemma knownFacts_GetContext_cached:
  "cache cm sid \<noteq> None \<Longrightarrow>
   knownFacts (fst (GetContext cm sid now)) sid npcID = knownFacts cm sid npcID"
  by (auto simp: GetContext_def knownFacts_def)

lemma repeatedFactOps_run:
  "\<exists>cm'. run (NewContextManager NewMemoryStorage) repeatedFactOps = Inr cm' \<and>
         knownFacts cm' ''s1'' ''npc1'' = Some [''friendly_greeting'', ''helpful'']"
  by (simp add: repeatedFactOps_def model_defs knownFacts_def Let_def word_sless_alt word_sle_eq)

text \<open>
  Claim C8.  If no known-facts list has a duplicate, none has one after any sequence of
  engine operations.  An update whose facts are all known already leaves the NPC's list
  as it is, and repeating an update with the same facts does not change the list again.
\<close>

theorem known_facts_set:
  "(allSessions factsOK cm \<and> run cm ops = Inr cm' \<longrightarrow> allSessions factsOK cm') \<and>
   (knownFacts cm sid npcID = Some known \<and> set facts \<subseteq> set known \<longrightarrow>
      knownFacts (fst (UpdateNPCRelationship cm sid npcID npcName d facts now)) sid npcID
        = Some known) \<and>
   knownFacts (fst (UpdateNPCRelationship
                      (fst (UpdateNPCRelationship cm sid npcID npcName d facts now))
                      sid npcID npcName2 d2 facts now2)) sid npcID =
     knownFacts (fst (UpdateNPCRelationship cm sid npcID npcName d facts now)) sid npcID"
proof (intro conjI impI)
  assume "allSessions factsOK cm \<and> run cm ops = Inr cm'"
  then show "allSessions factsOK cm'"
    using run_all [OF facts_preserved, of cm ops cm'] by (simp add: queueSat_def)
next
  assume a: "knownFacts cm sid npcID = Some known \<and> set facts \<subseteq> set known"
  then have "cache cm sid \<noteq> None" by (auto simp: knownFacts_def split: option.splits)
  then have "knownFacts (fst (GetContext cm sid now)) sid npcID = Some known"
    using a by (simp add: knownFacts_GetContext_cached)
  then show "knownFacts (fst (UpdateNPCRelationship cm sid npcID npcName d facts now)) sid npcID
             = Some known"
    using a by (simp add: knownFacts_UpdateNPCRelationship addNewFacts_known)
next
  let ?cm1 = "fst (UpdateNPCRelationship cm sid npcID npcName d facts now)"
  obtain known where k: "knownFacts ?cm1 sid npcID = Some known" and s: "set facts \<subseteq> set known"
    by (simp add: knownFacts_UpdateNPCRelationship set_addNewFacts)
  then have "cache ?cm1 sid \<noteq> None" by (auto simp: knownFacts_def split: option.splits)
  then have "knownFacts (fst (GetContext ?cm1 sid now2)) sid npcID = Some known"
    using k by (simp add: knownFacts_GetContext_cached)
  then show "knownFacts (fst (UpdateNPCRelationship ?cm1 sid npcID npcName2 d2 facts now2)) sid npcID
             = knownFacts ?cm1 sid npcID"
    using k s by (simp add: knownFacts_UpdateNPCRelationship addNewFacts_known)
qed

theorem known_facts_set_witness:
  "allSessions factsOK (NewContextManager NewMemoryStorage) \<and>
   (\<exists>cm'. run (NewContextManager NewMemoryStorage) repeatedFactOps = Inr cm' \<and>
          allSessions factsOK cm' \<and>
          knownFacts cm' ''s1'' ''npc1'' = Some [''friendly_greeting'', ''helpful''] \<and>
          knownFacts (fst (UpdateNPCRelationship cm' ''s1'' ''npc1'' ''Bob'' 7 [''helpful''] 9))
            ''s1'' ''npc1'' = Some [''friendly_greeting'', ''helpful''])"
proof -
  have a: "allSessions factsOK (NewContextManager NewMemoryStorage)"
    by (rule allSessions_fresh_manager)
  from repeatedFactOps_run obtain cm' where
    r: "run (NewContextManager NewMemoryStorage) repeatedFactOps = Inr cm'"
    and k: "knownFacts cm' ''s1'' ''npc1'' = Some [''friendly_greeting'', ''helpful'']"
    by blast
  have s: "set [''helpful''] \<subseteq> set [''friendly_greeting'', ''helpful'']" by simp
  have "allSessions factsOK cm'"
    using known_facts_set [of "NewContextManager NewMemoryStorage" repeatedFactOps cm'] a r
    by blast
  moreover have "knownFacts (fst (UpdateNPCRelationship cm' ''s1'' ''npc1'' ''Bob'' 7 [''helpful''] 9))
            ''s1'' ''npc1'' = Some [''friendly_greeting'', ''helpful'']"
    using known_facts_set [of cm' "[]" cm' "''s1''" "''npc1''" "[''friendly_greeting'', ''helpful'']"
                              "[''helpful'']" "''Bob''" 7 9] k s
    by blast
  ultimately show ?thesis using a r k by blast
qed

section \<open>Location history\<close>








section \<open>The action log\<close>

lemma Actions_effects [simp]:
  "Actions (npcEffect npcID npcName d facts now c) = Actions c"
  "Actions (addReputation r c) = Actions c"
  "Actions (damageHealth r c) = Actions c"
  "Actions (healHealth r c) = Actions c"
  "Actions (gainItem i c) = Actions c"
  "Actions (removeItemFromInventory iid c) = Actions c"
  "Actions (clampReputation c) = Actions c"
  "Actions (stampEvent a now c) = Actions c"
  by (simp_all add: npcEffect_def addReputation_def damageHealth_def healHealth_def gainItem_def
        removeItemFromInventory_def clampReputation_def stampEvent_def updateSessionStats_def
        Let_def split: option.splits prod.splits)

lemma Actions_appendAction: "Actions (appendAction n a c) = lastN n (Actions c @ [a])"
  by (simp add: appendAction_def lastN_def Let_def)

lemma sessionLog_GetContext:
  "sessionLog (fst (GetContext cm sid2 now)) sid = sessionLog cm sid"
  by (auto simp: sessionLog_def GetContext_def Let_def createNewContext_def
           split: option.splits sum.splits)

lemma sessionLog_GetContext_eq:
  "GetContext cm sid2 now = (cm1, ctx, e) \<Longrightarrow> sessionLog cm1 sid = sessionLog cm sid"
  using sessionLog_GetContext [of cm sid2 now sid] by simp

lemma GetContext_cached:
  "GetContext cm sid now = (cm1, ctx, e) \<Longrightarrow> cache cm1 sid = Some ctx"
  by (auto simp: GetContext_def Let_def split: option.splits)

lemma sessionLog_modifyCached:
  "(\<And>c. Actions (f c) = Actions c) \<Longrightarrow> sessionLog (modifyCached cm key f) sid = sessionLog cm sid"
  by (auto simp: sessionLog_def modifyCached_def split: option.splits)

lemma sessionLog_cache_upd:
  "cache cm sid2 = Some ctx \<Longrightarrow>
   sessionLog (cm\<lparr>cache := (cache cm)(sid2 \<mapsto> ctx')\<rparr>) sid =
     (if sid2 = sid then Actions ctx' else sessionLog cm sid)"
  by (auto simp: sessionLog_def split: option.splits)

lemma sessionLog_modifyCached_at:
  "cache cm key = Some ctx \<Longrightarrow>
   sessionLog (modifyCached cm key f) sid =
     (if key = sid then Actions (f ctx) else sessionLog cm sid)"
  by (auto simp: sessionLog_def modifyCached_def split: option.splits)

lemma sessionLog_UpdateNPCRelationship:
  "sessionLog (fst (UpdateNPCRelationship cm sid2 npcID npcName d facts now)) sid = sessionLog cm sid"
proof -
  obtain cm1 ctx e where g: "GetContext cm sid2 now = (cm1, ctx, e)"
    by (cases "GetContext cm sid2 now") auto
  have e: "e = None" using g by (rule GetContext_None)
  have c: "cache cm1 sid2 = Some ctx" using g by (rule GetContext_cached)
  have l: "sessionLog cm1 sid = sessionLog cm sid" using g by (rule sessionLog_GetContext_eq)
  have "sid2 = sid \<Longrightarrow> Actions ctx = sessionLog cm1 sid" using c by (simp add: sessionLog_def)
  then show ?thesis using l
    by (simp add: UpdateNPCRelationship_def g e sessionLog_cache_upd [OF c])
qed

lemma sessionLog_applyConsequence:
  assumes "applyConsequence cm key action now c = Inr cm'"
  shows "sessionLog cm' sid = sessionLog cm sid"
  using assms unfolding applyConsequence_def Let_def
  by (auto simp: sessionLog_modifyCached sessionLog_UpdateNPCRelationship
           split: if_splits option.splits mvalue.splits)

lemma sessionLog_consequenceLoop:
  "consequenceLoop cm key action now cs = Inr cm' \<Longrightarrow> sessionLog cm' sid = sessionLog cm sid"
  by (induction cs arbitrary: cm) (auto split: sum.splits dest: sessionLog_applyConsequence)

lemma maxActions_GetContext_eq:
  "GetContext cm sid now = (cm1, ctx, e) \<Longrightarrow> maxActions cm1 = maxActions cm"
  by (auto simp: GetContext_def Let_def split: option.splits)

lemma maxActions_modifyCached [simp]: "maxActions (modifyCached cm key f) = maxActions cm"
  by (simp add: modifyCached_def split: option.splits)

lemma maxActions_UpdateNPCRelationship [simp]:
  "maxActions (fst (UpdateNPCRelationship cm sid npcID npcName d facts now)) = maxActions cm"
  by (auto simp: UpdateNPCRelationship_def split: prod.splits option.splits
           dest: maxActions_GetContext_eq)

lemma maxActions_applyConsequence:
  "applyConsequence cm key action now c = Inr cm' \<Longrightarrow> maxActions cm' = maxActions cm"
  unfolding applyConsequence_def Let_def
  by (auto split: if_splits option.splits mvalue.splits)

lemma maxActions_consequenceLoop:
  "consequenceLoop cm key action now cs = Inr cm' \<Longrightarrow> maxActions cm' = maxActions cm"
  by (induction cs arbitrary: cm) (auto split: sum.splits dest: maxActions_applyConsequence)

lemma maxActions_processContextEvent:
  "processContextEvent cm event now = Inr cm' \<Longrightarrow> maxActions cm' = maxActions cm"
  by (auto simp: processContextEvent_def processActionConsequences_def Let_def
           split: prod.splits option.splits sum.splits
           dest!: maxActions_consequenceLoop maxActions_GetContext_eq)

lemma sessionLog_processContextEvent:
  assumes p: "processContextEvent cm event now = Inr cm'"
  shows "sessionLog cm' sid =
           (if Event_SessionID event = sid
            then lastN (maxActions cm) (sessionLog cm sid @ [Event event])
            else sessionLog cm sid)"
proof -
  let ?key = "Event_SessionID event"
  obtain cm1 ctx e where g: "GetContext cm ?key now = (cm1, ctx, e)"
    by (cases "GetContext cm ?key now") auto
  have e: "e = None" using g by (rule GetContext_None)
  have m: "maxActions cm1 = maxActions cm" using g by (rule maxActions_GetContext_eq)
  have c: "cache cm1 ?key = Some ctx" using g by (rule GetContext_cached)
  have l1: "sessionLog cm1 sid = sessionLog cm sid" using g by (rule sessionLog_GetContext_eq)
  let ?cm2 = "modifyCached cm1 ?key (appendAction (maxActions cm1) (Event event))"
  have l2: "sessionLog ?cm2 sid =
              (if ?key = sid then lastN (maxActions cm) (sessionLog cm sid @ [Event event])
               else sessionLog cm sid)"
  proof -
    have "?key = sid \<Longrightarrow> Actions ctx = sessionLog cm sid"
      using c l1 by (auto simp: sessionLog_def)
    then show ?thesis
      using l1 m by (simp add: sessionLog_modifyCached_at [OF c] Actions_appendAction)
  qed
  from p g e obtain cm3 where
    lp: "consequenceLoop ?cm2 ?key (Event event) now (Consequences (Event event)) = Inr cm3"
    and r: "cm' = modifyCached (modifyCached cm3 ?key clampReputation) ?key (stampEvent (Event event) now)"
    by (auto simp: processContextEvent_def processActionConsequences_def Let_def split: sum.splits)
  have "sessionLog cm3 sid = sessionLog ?cm2 sid"
    using lp by (rule sessionLog_consequenceLoop)
  then show ?thesis using l2 by (simp add: r sessionLog_modifyCached)
qed

lemma lastN_lastN:
  assumes "m \<le> n"
  shows "lastN m (lastN n xs) = lastN m xs"
proof -
  have "length xs - (length xs - n + m) + (length xs - n) = length xs - m"
    using assms by arith
  then show ?thesis by (simp add: lastN_def)
qed

lemma lastN_append:
  "lastN n (xs @ ys) = (if n \<le> length ys then lastN n ys else lastN (n - length ys) xs @ ys)"
  by (auto simp: lastN_def)

lemma lastN_append_lastN: "lastN n (lastN n xs @ ys) = lastN n (xs @ ys)"
  by (simp add: lastN_append lastN_lastN)

lemma length_lastN: "length (lastN n xs) = min (length xs) n"
  by (auto simp: lastN_def)

lemma lastN_short: "length xs \<le> n \<Longrightarrow> lastN n xs = xs"
  by (simp add: lastN_def)

lemma eventsFor_Cons:
  "eventsFor sid ((event, now) # rest) =
     (if Event_SessionID event = sid then Event event # eventsFor sid rest else eventsFor sid rest)"
  by (simp add: eventsFor_def)

lemma sessionLog_processEventSequence:
  "length (sessionLog cm sid) \<le> maxActions cm
   \<Longrightarrow> processEventSequence cm evs = Inr cm'
   \<Longrightarrow> sessionLog cm' sid = lastN (maxActions cm) (sessionLog cm sid @ eventsFor sid evs)"
proof (induction evs arbitrary: cm)
  case Nil
  then show ?case by (simp add: eventsFor_def lastN_short)
next
  case (Cons p evs)
  obtain event now where pe: "p = (event, now)" by (cases p) auto
  from Cons.prems(2) pe obtain cm1 where
    s: "processContextEvent cm event now = Inr cm1" and r: "processEventSequence cm1 evs = Inr cm'"
    by (auto split: sum.splits)
  have m: "maxActions cm1 = maxActions cm" using s by (rule maxActions_processContextEvent)
  let ?L = "sessionLog cm sid"
  let ?L1 = "if Event_SessionID event = sid then lastN (maxActions cm) (?L @ [Event event]) else ?L"
  have l1: "sessionLog cm1 sid = ?L1"
    using sessionLog_processContextEvent [OF s] .
  have b: "length (sessionLog cm1 sid) \<le> maxActions cm1"
    using Cons.prems(1) m l1 by (simp add: length_lastN)
  have "sessionLog cm' sid = lastN (maxActions cm1) (sessionLog cm1 sid @ eventsFor sid evs)"
    using Cons.IH [OF b r] .
  then show ?case
    using lastN_append_lastN [of "maxActions cm" "?L @ [Event event]" "eventsFor sid evs"]
    by (simp add: pe m l1 eventsFor_Cons)
qed

lemma applyConsequence_no_panic:
  "Action_Metadata action = Map.empty \<Longrightarrow> \<exists>cm'. applyConsequence cm key action now c = Inr cm'"
  by (simp add: applyConsequence_def Let_def)

lemma consequenceLoop_no_panic:
  "Action_Metadata action = Map.empty \<Longrightarrow> \<exists>cm'. consequenceLoop cm key action now cs = Inr cm'"
proof (induction cs arbitrary: cm)
  case Nil
  then show ?case by simp
next
  case (Cons c cs)
  from applyConsequence_no_panic [OF Cons.prems, of cm key now c]
  obtain cm1 where "applyConsequence cm key action now c = Inr cm1" by blast
  then show ?case using Cons.IH [OF Cons.prems, of cm1] by simp
qed

lemma processContextEvent_no_panic:
  assumes "Action_Metadata (Event event) = Map.empty"
  shows "\<exists>cm'. processContextEvent cm event now = Inr cm'"
proof -
  obtain cm1 ctx e where g: "GetContext cm (Event_SessionID event) now = (cm1, ctx, e)"
    by (cases "GetContext cm (Event_SessionID event) now") auto
  have e: "e = None" using g by (rule GetContext_None)
  from consequenceLoop_no_panic [OF assms]
  obtain cm3 where "consequenceLoop
       (modifyCached cm1 (Event_SessionID event) (appendAction (maxActions cm1) (Event event)))
       (Event_SessionID event) (Event event) now (Consequences (Event event)) = Inr cm3"
    by blast
  then show ?thesis
    by (simp add: processContextEvent_def processActionConsequences_def g e Let_def)
qed

lemma processEventSequence_no_panic:
  "list_all (\<lambda>(event, now). Action_Metadata (Event event) = Map.empty) evs
   \<Longrightarrow> \<exists>cm'. processEventSequence cm evs = Inr cm'"
proof (induction evs arbitrary: cm)
  case Nil
  then show ?case by simp
next
  case (Cons p evs)
  obtain event now where pe: "p = (event, now)" by (cases p) auto
  have "Action_Metadata (Event event) = Map.empty" using Cons.prems pe by simp
  from processContextEvent_no_panic [OF this, of cm now]
  obtain cm1 where "processContextEvent cm event now = Inr cm1" by blast
  then show ?case using Cons.IH [of cm1] Cons.prems pe by simp
qed


text \<open>
  Claim C2.  A session whose log is empty has, after the worker has processed a sequence
  of events, a log made of the last \<open>min(N, bound)\<close> of the \<open>N\<close> events addressed to it,
  in processing order; the bound is \<open>maxActions\<close>, 50 by default.  Events built by
  RecordAction carry no metadata, and processing such events never panics.
\<close>

theorem action_log_bounded_fifo:
  assumes "sessionLog cm sid = []"
  shows "(\<forall>cm'. processEventSequence cm evs = Inr cm' \<longrightarrow>
            sessionLog cm' sid = lastN (maxActions cm) (eventsFor sid evs) \<and>
            length (sessionLog cm' sid) = min (length (eventsFor sid evs)) (maxActions cm)) \<and>
         (list_all (\<lambda>(event, now). Action_Metadata (Event event) = Map.empty) evs \<longrightarrow>
            (\<exists>cm'. processEventSequence cm evs = Inr cm')) \<and>
         maxActions (NewContextManager st) = 50"
  using sessionLog_processEventSequence [of cm sid evs] assms
    processEventSequence_no_panic [of evs cm]
  by (auto simp: length_lastN NewContextManager_def)

lemma fourEvents_run:
  "\<exists>cm'. processEventSequence (oneSessionManager\<lparr>maxActions := 2\<rparr>) fourEvents = Inr cm' \<and>
         map Action_ID (sessionLog cm' ''s1'') = [''a2'', ''a3''] \<and>
         map Action_ID (sessionLog cm' ''s2'') = [''b1'']"
  by (simp add: fourEvents_def loggedEvent_def oneSessionManager_def sessionLog_def model_defs
                Let_def word_sless_alt word_sle_eq)

theorem action_log_bounded_fifo_witness:
  "sessionLog (oneSessionManager\<lparr>maxActions := 2\<rparr>) ''s1'' = [] \<and>
   list_all (\<lambda>(event, now). Action_Metadata (Event event) = Map.empty) fourEvents \<and>
   (\<exists>cm'. processEventSequence (oneSessionManager\<lparr>maxActions := 2\<rparr>) fourEvents = Inr cm' \<and>
          sessionLog cm' ''s1'' = lastN 2 (eventsFor ''s1'' fourEvents) \<and>
          map Action_ID (sessionLog cm' ''s1'') = [''a2'', ''a3''] \<and>
          length (sessionLog cm' ''s1'') = min 3 2)"
proof -
  let ?cm = "oneSessionManager\<lparr>maxActions := 2\<rparr>"
  have a: "sessionLog ?cm ''s1'' = []"
    by (simp add: oneSessionManager_def sessionLog_def model_defs Let_def)
  have m: "list_all (\<lambda>(event, now). Action_Metadata (Event event) = Map.empty) fourEvents"
    by (simp add: fourEvents_def loggedEvent_def newAction_def)
  have n: "length (eventsFor ''s1'' fourEvents) = 3"
    by (simp add: fourEvents_def loggedEvent_def eventsFor_def)
  from action_log_bounded_fifo [OF a, of fourEvents NewMemoryStorage] m
  obtain cm' where r: "processEventSequence ?cm fourEvents = Inr cm'"
    and l: "sessionLog cm' ''s1'' = lastN 2 (eventsFor ''s1'' fourEvents)"
    and k: "length (sessionLog cm' ''s1'') = min 3 2"
    using n by auto
  have "map Action_ID (lastN 2 (eventsFor ''s1'' fourEvents)) = [''a2'', ''a3'']"
    by (simp add: fourEvents_def loggedEvent_def eventsFor_def lastN_def newAction_def)
  then have i: "map Action_ID (sessionLog cm' ''s1'') = [''a2'', ''a3'']"
    by (simp only: l)
  show ?thesis using a m r l i k
    by (intro conjI exI [of _ cm']) assumption+
qed

section \<open>The bounded event queue\<close>

lemma RecordAction_room:
  "length (eventQueue cm) < queueCapacity cm \<Longrightarrow>
   RecordAction cm sid command actionType target location outcome consequences uuid now =
     (cm\<lparr>eventQueue := eventQueue cm @
            [\<lparr>Event_SessionID = sid,
              Event = newAction command actionType target location outcome consequences uuid now,
              Event_Timestamp = now\<rparr>]\<rparr>, None)"
  by (simp add: RecordAction_def Let_def)

lemma RecordAction_full:
  "\<not> length (eventQueue cm) < queueCapacity cm \<Longrightarrow>
   RecordAction cm sid command actionType target location outcome consequences uuid now =
     (cm, Some EventQueueFull)"
  by (simp add: RecordAction_def Let_def)

lemma submitAll_room:
  "length (eventQueue cm) + length subs \<le> queueCapacity cm \<Longrightarrow>
   submitAll cm subs =
     (cm\<lparr>eventQueue := eventQueue cm @ map submittedEvent subs\<rparr>, replicate (length subs) None)"
proof (induction subs arbitrary: cm)
  case Nil
  then show ?case by simp
next
  case (Cons s subs)
  then have "length (eventQueue cm) < queueCapacity cm" by simp
  then have st: "submit cm s = (cm\<lparr>eventQueue := eventQueue cm @ [submittedEvent s]\<rparr>, None)"
    by (simp add: submit_def submittedEvent_def RecordAction_room)
  show ?case using Cons.prems
    by (simp add: st Cons.IH)
qed

lemma submitAll_append:
  "submitAll cm (xs @ ys) =
     (case submitAll cm xs of (cm1, es) \<Rightarrow>
        (case submitAll cm1 ys of (cm2, es') \<Rightarrow> (cm2, es @ es')))"
  by (induction xs arbitrary: cm) (auto split: prod.splits)

lemma submitAll_overflow:
  assumes "eventQueue cm = []" and "length subs = Suc (queueCapacity cm)"
  shows "submitAll cm subs =
           (cm\<lparr>eventQueue := map submittedEvent (butlast subs)\<rparr>,
            replicate (queueCapacity cm) None @ [Some EventQueueFull])"
proof -
  have ne: "subs \<noteq> []" using assms(2) by auto
  then have sp: "subs = butlast subs @ [last subs]" by simp
  have lb: "length (butlast subs) = queueCapacity cm" using assms(2) by simp
  have a: "submitAll cm (butlast subs) =
             (cm\<lparr>eventQueue := map submittedEvent (butlast subs)\<rparr>, replicate (queueCapacity cm) None)"
    using submitAll_room [of cm "butlast subs"] assms(1) lb by simp
  have b: "submitAll (cm\<lparr>eventQueue := map submittedEvent (butlast subs)\<rparr>) [last subs] =
             (cm\<lparr>eventQueue := map submittedEvent (butlast subs)\<rparr>, [Some EventQueueFull])"
    using lb by (simp add: submit_def RecordAction_full)
  have "submitAll cm (butlast subs @ [last subs]) =
           (cm\<lparr>eventQueue := map submittedEvent (butlast subs)\<rparr>,
            replicate (queueCapacity cm) None @ [Some EventQueueFull])"
    by (simp only: submitAll_append a b prod.case)
  then show ?thesis using sp by simp
qed

lemma notLogged_preserved:
  "preservedBy (\<lambda>a. Action_ID a \<noteq> u) (otherID u) (notLogged u) (notLogged u)"
  unfolding preservedBy_def
proof (intro conjI allI impI)
  fix n and a :: ActionEvent and c
  assume "Action_ID a \<noteq> u" and "notLogged u c"
  then show "notLogged u (appendAction n a c)"
    by (auto simp: notLogged_def appendAction_def Let_def dest: in_set_dropD)
qed (auto simp: notLogged_def createNewContext_def newSession_def npcEffect_def locationEffect_def
      healthEffect_def reputationEffect_def addReputation_def newAction_def
      damageHealth_def healHealth_def gainItem_def removeItemFromInventory_def stampEvent_def
      updateSessionStats_def clampReputation_def Let_def split: option.splits)


text \<open>
  Claim C4.  With room in the queue RecordAction returns no error and the event is
  appended to the queue.  With a full queue it returns the capacity error and leaves the
  manager as it was: if the id of the dropped action occurs in no log and no queued
  event, then whatever operations follow (none of them bringing that id in again), it
  occurs in no log.  With the worker paused, 1001 submissions to a new manager (capacity
  1000) return no error 1000 times and the capacity error the 1001st time.
\<close>

theorem record_action_capacity:
  "(length (eventQueue cm) < queueCapacity cm \<longrightarrow>
      RecordAction cm sid command actionType target location outcome consequences uuid now =
        (cm\<lparr>eventQueue := eventQueue cm @
               [\<lparr>Event_SessionID = sid,
                 Event = newAction command actionType target location outcome consequences uuid now,
                 Event_Timestamp = now\<rparr>]\<rparr>, None)) \<and>
   (\<not> length (eventQueue cm) < queueCapacity cm \<longrightarrow>
      RecordAction cm sid command actionType target location outcome consequences uuid now =
        (cm, Some EventQueueFull) \<and>
      (allSessions (notLogged uuid) cm \<and> queueSat (\<lambda>a. Action_ID a \<noteq> uuid) cm \<and>
       (\<forall>operation \<in> set ops. otherID uuid operation) \<and>
       run (fst (RecordAction cm sid command actionType target location outcome consequences uuid now))
           ops = Inr cm'
       \<longrightarrow> allSessions (notLogged uuid) cm' \<and> queueSat (\<lambda>a. Action_ID a \<noteq> uuid) cm')) \<and>
   (length subs = 1001 \<longrightarrow>
      submitAll (NewContextManager st) subs =
        ((NewContextManager st)\<lparr>eventQueue := map submittedEvent (butlast subs)\<rparr>,
         replicate 1000 None @ [Some EventQueueFull])) \<and>
   queueCapacity (NewContextManager st) = 1000"
proof -
  have full: "allSessions (notLogged uuid) cm' \<and> queueSat (\<lambda>a. Action_ID a \<noteq> uuid) cm'"
    if f: "\<not> length (eventQueue cm) < queueCapacity cm"
    and h: "allSessions (notLogged uuid) cm \<and> queueSat (\<lambda>a. Action_ID a \<noteq> uuid) cm \<and>
       (\<forall>operation \<in> set ops. otherID uuid operation) \<and>
       run (fst (RecordAction cm sid command actionType target location outcome consequences uuid now))
           ops = Inr cm'"
  proof -
    have "run cm ops = Inr cm'" using h RecordAction_full [OF f] by simp
    with h run_all [OF notLogged_preserved, of uuid cm ops cm'] show ?thesis by blast
  qed
  have scenario: "submitAll (NewContextManager st) subs =
        ((NewContextManager st)\<lparr>eventQueue := map submittedEvent (butlast subs)\<rparr>,
         replicate 1000 None @ [Some EventQueueFull])"
    if "length subs = 1001"
    using that submitAll_overflow [of "NewContextManager st" subs]
    by (simp add: NewContextManager_def)
  have cap: "queueCapacity (NewContextManager st) = 1000" by (simp add: NewContextManager_def)
  show ?thesis
    using RecordAction_room [of cm sid command actionType target location outcome consequences uuid now]
      RecordAction_full [of cm sid command actionType target location outcome consequences uuid now]
      full scenario cap
    by blast
qed


lemma fullQueueManager_run:
  "\<exists>cm'. run fullQueueManager [OpWorker 5] = Inr cm' \<and>
         map Action_ID (sessionLog cm' ''s1'') = [''a1'']"
  by (simp add: fullQueueManager_def oneSessionManager_def sessionLog_def model_defs Let_def
                word_sless_alt word_sle_eq)

theorem record_action_capacity_witness:
  "length (eventQueue oneSessionManager) < queueCapacity oneSessionManager \<and>
   snd (RecordAction oneSessionManager ''s1'' ''/look'' ''look'' [] ''village'' ''ok'' [] ''a1'' 2)
     = None \<and>
   map (\<lambda>e. Action_ID (Event e))
     (eventQueue (fst (RecordAction oneSessionManager
                         ''s1'' ''/look'' ''look'' [] ''village'' ''ok'' [] ''a1'' 2))) = [''a1''] \<and>
   \<not> length (eventQueue fullQueueManager) < queueCapacity fullQueueManager \<and>
   RecordAction fullQueueManager ''s1'' ''/attack'' ''attack'' [] ''village'' ''hit'' [] ''a2'' 3
     = (fullQueueManager, Some EventQueueFull) \<and>
   allSessions (notLogged ''a2'') fullQueueManager \<and>
   queueSat (\<lambda>a. Action_ID a \<noteq> ''a2'') fullQueueManager \<and>
   list_all (otherID ''a2'') [OpWorker 5] \<and>
   (\<exists>cm'. run (fst (RecordAction fullQueueManager
                      ''s1'' ''/attack'' ''attack'' [] ''village'' ''hit'' [] ''a2'' 3))
               [OpWorker 5] = Inr cm' \<and>
          allSessions (notLogged ''a2'') cm' \<and>
          map Action_ID (sessionLog cm' ''s1'') = [''a1'']) \<and>
   length (replicate 1001 sameSubmission) = 1001 \<and>
   snd (submitAll (NewContextManager NewMemoryStorage) (replicate 1001 sameSubmission))
     = replicate 1000 None @ [Some EventQueueFull]"
proof -
  note c = record_action_capacity
  have r1: "length (eventQueue oneSessionManager) < queueCapacity oneSessionManager"
    by (simp add: oneSessionManager_def model_defs Let_def)
  have e1: "RecordAction oneSessionManager ''s1'' ''/look'' ''look'' [] ''village'' ''ok'' [] ''a1'' 2 =
      (oneSessionManager\<lparr>eventQueue := eventQueue oneSessionManager @
         [\<lparr>Event_SessionID = ''s1'',
           Event = newAction ''/look'' ''look'' [] ''village'' ''ok'' [] ''a1'' 2,
           Event_Timestamp = 2\<rparr>]\<rparr>, None)"
    using c [of oneSessionManager "''s1''" "''/look''" "''look''" "[]" "''village''" "''ok''" "[]"
               "''a1''" 2] r1 by blast
  have q1: "eventQueue oneSessionManager = []"
    by (simp add: oneSessionManager_def model_defs Let_def)
  have f: "\<not> length (eventQueue fullQueueManager) < queueCapacity fullQueueManager"
    by (simp add: fullQueueManager_def oneSessionManager_def model_defs Let_def)
  have a: "allSessions (notLogged ''a2'') fullQueueManager"
    by (simp add: fullQueueManager_def oneSessionManager_def model_defs Let_def allSessions_def
                  notLogged_def)
  have q: "queueSat (\<lambda>a. Action_ID a \<noteq> ''a2'') fullQueueManager"
    by (simp add: fullQueueManager_def oneSessionManager_def model_defs Let_def queueSat_def)
  have o: "list_all (otherID ''a2'') [OpWorker 5]" by simp
  then have o': "\<forall>operation \<in> set [OpWorker 5]. otherID ''a2'' operation" by simp
  note c2 = c [of fullQueueManager "''s1''" "''/attack''" "''attack''" "[]" "''village''" "''hit''"
                  "[]" "''a2''" 3 "[OpWorker 5]"]
  have e2: "RecordAction fullQueueManager ''s1'' ''/attack'' ''attack'' [] ''village'' ''hit'' [] ''a2'' 3
              = (fullQueueManager, Some EventQueueFull)"
    using c2 f by blast
  from fullQueueManager_run obtain cm' where
    r: "run fullQueueManager [OpWorker 5] = Inr cm'"
    and l: "map Action_ID (sessionLog cm' ''s1'') = [''a1'']"
    by (elim exE conjE)
  have r': "run (fst (RecordAction fullQueueManager
                      ''s1'' ''/attack'' ''attack'' [] ''village'' ''hit'' [] ''a2'' 3))
               [OpWorker 5] = Inr cm'"
    using r by (simp only: e2 fst_conv)
  have n: "allSessions (notLogged ''a2'') cm'"
    using c2 [of cm'] f a q o' r' by blast
  have len: "length (replicate 1001 sameSubmission) = 1001" by simp
  have s: "snd (submitAll (NewContextManager NewMemoryStorage) (replicate 1001 sameSubmission))
             = replicate 1000 None @ [Some EventQueueFull]"
    using c [where subs = "replicate 1001 sameSubmission" and st = NewMemoryStorage] len
    by (metis snd_conv)
  show ?thesis
    using r1 f e2 a q o r' n l len s by (simp add: e1 q1 newAction_def)
qed

section \<open>Health\<close>

text \<open>UpdateCharacterHealth clamps on both sides and keeps the health in [0, max].\<close>

lemma healthOK_healthEffect: "healthOK c \<Longrightarrow> healthOK (healthEffect d now c)"
  by (auto simp: healthOK_def healthEffect_def Let_def word_sless_alt)

lemma healthOK_UpdateCharacterHealth:
  assumes "allSessions healthOK cm"
  shows "allSessions healthOK (fst (UpdateCharacterHealth cm sid d now))"
proof -
  obtain cm1 ctx e where g: "GetContext cm sid now = (cm1, ctx, e)"
    by (cases "GetContext cm sid now") auto
  have e: "e = None" using g by (rule GetContext_None)
  have f: "(\<forall>c. healthOK c \<longrightarrow> healthOK c) \<and> (\<forall>sid now. healthOK (createNewContext sid now))"
    by (simp add: healthOK_def createNewContext_def)
  have "sessionsSat healthOK healthOK sid
          (cm1\<lparr>cache := (cache cm1)(sid \<mapsto> healthEffect d now ctx)\<rparr>)"
    using assms healthOK_healthEffect
    by (intro mutator_sat [OF f _ g]) (auto simp: allSessions_sat [of _ _ sid])
  then show ?thesis
    by (simp add: UpdateCharacterHealth_def g e allSessions_sat [of _ _ sid])
qed

text \<open>The health_damage rule keeps the health in range when the damage is not negative.\<close>

lemma sint_sub_nonneg:
  fixes a d :: go_int
  assumes "0 \<le> sint a" and "0 \<le> sint d"
  shows "sint (a - d) = sint a - sint d"
proof -
  have "sint a < 2 ^ 63" "sint d < 2 ^ 63"
    using sint_lt [of a] sint_lt [of d] by simp_all
  then have "- (2 ^ 63) \<le> sint a - sint d" "sint a - sint d < 2 ^ 63"
    using assms by simp_all
  then show ?thesis
    by (simp add: sint_word_ariths signed_take_bit_int_eq_self)
qed

lemma healthOK_damageHealth:
  assumes "healthOK c" and "0 \<le> sint d"
  shows "healthOK (damageHealth d c)"
proof -
  have "sint (Health_Current (Health (Character c)) - d)
          = sint (Health_Current (Health (Character c))) - sint d"
    using assms by (intro sint_sub_nonneg) (simp_all add: healthOK_def)
  then show ?thesis using assms
    by (auto simp: healthOK_def damageHealth_def Let_def word_sless_alt)
qed


end
